theory Spec2Isabelle
  imports Complex_Main "HOL-Library.Multiset"
begin

section \<open>Numbers, vectors and failures\<close>

text \<open>
  The program computes with numpy arrays of double-precision numbers. Here a number is a
  \<^typ>\<open>real\<close>: rounding, overflow and underflow are idealised away, and every result
  below is a statement about exact arithmetic. A \<open>(2,n)\<close> array is the list of its \<open>n\<close>
  columns, each column a pair.

  numpy does not raise when an array is divided by zero: the quotient is \<open>nan\<close> or
  \<open>inf\<close>. HOL would silently return \<open>0\<close> there, so every division of the source whose
  divisor can be zero is guarded in the model, and the outcome \<open>NonFinite\<close> stands for
  "some component of the result is not a finite number". It is not a Python exception;
  the other constructors of \<open>failure\<close> are.
\<close>

type_synonym vec = "real \<times> real"

datatype failure =
  TypeError | AttributeError | IndexError | LinAlgError | OverflowError | NonFinite

definition raises :: "failure + 'a \<Rightarrow> bool" where
  "raises r = (case r of Inl e \<Rightarrow> e \<noteq> NonFinite | Inr _ \<Rightarrow> False)"

definition vadd :: "vec \<Rightarrow> vec \<Rightarrow> vec" where
  "vadd a b = (fst a + fst b, snd a + snd b)"

definition vsub :: "vec \<Rightarrow> vec \<Rightarrow> vec" where
  "vsub a b = (fst a - fst b, snd a - snd b)"

definition smul :: "real \<Rightarrow> vec \<Rightarrow> vec" where
  "smul c a = (c * fst a, c * snd a)"

definition dot :: "vec \<Rightarrow> vec \<Rightarrow> real" where
  "dot a b = fst a * fst b + snd a * snd b"

text \<open>\<open>np.linalg.norm\<close> of a column.\<close>

definition vnorm :: "vec \<Rightarrow> real" where
  "vnorm a = sqrt (dot a a)"

section \<open>LumpedVortex: the regularised kernel\<close>

text \<open>
  \<open>rsq = np.maximum(np.sum(r * r, 0), self.core_radius**2)\<close> for one target column,
  with \<open>r = x - xvort\<close>.
\<close>

definition rsq :: "real \<Rightarrow> vec \<Rightarrow> vec \<Rightarrow> real" where
  "rsq r0 x xvort = max (dot (vsub x xvort) (vsub x xvort)) (r0\<^sup>2)"

text \<open>
  \<open>gam / (2 * np.pi) * np.vstack([r[1], -r[0]]) / rsq\<close> for one target column; the
  operations associate to the left as in Python.
\<close>

definition kernel_column :: "real \<Rightarrow> vec \<Rightarrow> vec \<Rightarrow> real \<Rightarrow> vec" where
  "kernel_column r0 x xvort gam =
     (let r = vsub x xvort in
      (gam / (2 * pi) * snd r / rsq r0 x xvort,
       gam / (2 * pi) * (- fst r) / rsq r0 x xvort))"

text \<open>
  \<open>LumpedVortex.induced_velocity_single(x, xvort, gam)\<close>, with \<open>self.core_radius\<close> as
  the first argument. A zero entry of \<open>rsq\<close> makes the quotient \<open>nan\<close> or \<open>inf\<close>.
\<close>

definition induced_velocity_single ::
  "real \<Rightarrow> vec list \<Rightarrow> vec \<Rightarrow> real \<Rightarrow> failure + vec list" where
  "induced_velocity_single r0 x xvort gam =
     (if \<exists>p \<in> set x. rsq r0 p xvort = 0 then Inl NonFinite
      else Inr (map (\<lambda>p. kernel_column r0 p xvort gam) x))"

text \<open>
  The loop shared by both \<open>induced_velocity\<close> methods:
  \<^verbatim>\<open>for xv, gam in zip(...): vel += self.induced_velocity_single(x, xv, gam)\<close>.
  The third argument is the zipped list, the fourth the accumulator \<open>vel\<close>.
\<close>

fun accumulate_velocity ::
  "real \<Rightarrow> vec list \<Rightarrow> (vec \<times> real) list \<Rightarrow> vec list \<Rightarrow> failure + vec list" where
  "accumulate_velocity r0 x [] vel = Inr vel"
| "accumulate_velocity r0 x ((xv, gam) # rest) vel =
     (case induced_velocity_single r0 x xv gam of
        Inl e \<Rightarrow> Inl e
      | Inr v \<Rightarrow> accumulate_velocity r0 x rest (map2 vadd vel v))"

section \<open>FreeVortexParticles: state and velocity\<close>

text \<open>
  The attributes of a \<open>FreeVortexParticles\<close> object. \<open>_x_vortices\<close> is \<open>None\<close> until the
  first vortex is added, then a \<open>(2,n)\<close> array. \<open>_core_radius\<close> is the class attribute
  \<open>1.e-3\<close> unless the setter has replaced it.
\<close>

record free_particles =
  fv_core_radius :: real
  fv_x_vortices :: "vec list option"
  fv_gamma :: "real list"
  fv_num_vortices :: nat
  fv_circulation :: real

definition reset :: "free_particles \<Rightarrow> free_particles" where
  "reset w = w\<lparr>fv_x_vortices := None, fv_gamma := [], fv_num_vortices := 0,
               fv_circulation := 0\<rparr>"

text \<open>\<open>FreeVortexParticles()\<close>: the constructor only calls \<open>reset\<close>.\<close>

definition FreeVortexParticles :: free_particles where
  "FreeVortexParticles =
     reset \<lparr>fv_core_radius = 1 / 1000, fv_x_vortices = None, fv_gamma = [],
            fv_num_vortices = 0, fv_circulation = 0\<rparr>"

definition circulation :: "free_particles \<Rightarrow> real" where
  "circulation w = fv_circulation w"

definition add_vortex :: "free_particles \<Rightarrow> vec \<Rightarrow> real \<Rightarrow> free_particles" where
  "add_vortex w x gamma =
     w\<lparr>fv_x_vortices :=
          (case fv_x_vortices w of None \<Rightarrow> Some [x] | Some xs \<Rightarrow> Some (xs @ [x])),
       fv_gamma := fv_gamma w @ [gamma],
       fv_num_vortices := fv_num_vortices w + 1,
       fv_circulation := fv_circulation w + gamma\<rparr>"

text \<open>
  \<open>FreeVortexParticles.induced_velocity(x)\<close>. \<open>np.zeros_like(x)\<close> succeeds; then
  \<open>zip\<close> asks \<open>np.transpose(self._x_vortices)\<close> for an iterator. When \<open>_x_vortices\<close> is
  \<open>None\<close> that is a 0-d object array, and iterating it raises \<open>TypeError\<close>, whatever the
  length of \<open>self._gamma\<close>.
\<close>

definition free_induced_velocity :: "free_particles \<Rightarrow> vec list \<Rightarrow> failure + vec list" where
  "free_induced_velocity w x =
     (case fv_x_vortices w of
        None \<Rightarrow> Inl TypeError
      | Some xvs \<Rightarrow>
          accumulate_velocity (fv_core_radius w) x (zip xvs (fv_gamma w))
            (map (\<lambda>_. (0, 0)) x))"

section \<open>The body collaborator\<close>

text \<open>
  Modelled from the spec: the body and its motion transform are collaborators outside
  this module. A body exposes \<open>get_points(body_frame=True)\<close>, the boundary points as a
  \<open>(2,m)\<close> array, and \<open>get_motion()\<close>, an optional transform whose \<open>map_position\<close>,
  \<open>map_vector\<close> and \<open>map_velocity\<close> take body-frame columns to the inertial frame. They
  are taken as pure and as acting on each column by itself. In a condition
  (\<open>if motion\<close>, \<open>if wake\<close>, \<open>if body\<close>) an object is true and \<open>None\<close> is false, so an
  optional collaborator is an \<open>option\<close>.
\<close>

record motion =
  map_position :: "vec \<Rightarrow> vec"
  map_vector :: "vec \<Rightarrow> vec"
  map_velocity :: "vec \<Rightarrow> vec"

record body =
  get_points :: "vec list"
  get_motion :: "motion option"

section \<open>BoundVortexPanels\<close>

text \<open>
  The attributes of a \<open>BoundVortexPanels\<close> object. \<open>_x_shed\<close> and \<open>_gam_shed\<close> do not
  exist until \<open>update_strengths_unsteady\<close> assigns them: \<open>None\<close> here is the missing
  attribute, whose read raises \<open>AttributeError\<close>.
\<close>

record bound_panels =
  bp_body :: body
  bp_core_radius :: real
  bp_numpanels :: nat
  bp_normals :: "vec list"
  bp_xvort :: "vec list"
  bp_xcoll :: "vec list"
  bp_trailing_edge :: vec
  bp_wake_dir :: vec
  bp_gam :: "real list"
  bp_influence_matrix :: "real list list option"
  bp_x_shed :: "vec option"
  bp_gam_shed :: "real option"

text \<open>
  \<open>BoundVortexPanels._update(Uinfty)\<close>, in the order of the source: the normals divide
  by the panel lengths (line 77), \<open>q[:,0]\<close> needs a first point (line 92), \<open>dq[:,0]\<close>
  a first panel (lines 95 and 100), and the closed branch divides by the length of the
  bisector (line 96).
\<close>

definition update_panels :: "bound_panels \<Rightarrow> vec \<Rightarrow> failure + bound_panels" where
  "update_panels s Uinfty =
     (let q = get_points (bp_body s);
          dq = map2 (\<lambda>a b. vsub b a) (butlast q) (tl q);
          normals = map (\<lambda>d. (snd d / vnorm d, - fst d / vnorm d)) dq;
          q25 = map2 (\<lambda>p d. vadd p (smul (1 / 4) d)) (butlast q) dq;
          q75 = map2 (\<lambda>p d. vadd p (smul (3 / 4) d)) (butlast q) dq;
          top = map (\<lambda>d. dot Uinfty d \<le> 0) dq;
          xvort = map (\<lambda>(t, a, b). if t then b else a) (zip top (zip q25 q75));
          xcoll = map (\<lambda>(t, a, b). if t then a else b) (zip top (zip q25 q75));
          s1 = s\<lparr>bp_numpanels := length dq, bp_normals := normals,
                 bp_xvort := xvort, bp_xcoll := xcoll\<rparr>
      in if \<exists>d \<in> set dq. vnorm d = 0 then Inl NonFinite
         else if q = [] then Inl IndexError
         else if vnorm (vsub (hd q) (last q)) < 5 / 1000 then
           (if dq = [] then Inl IndexError
            else let wake_dir = smul (- (1 / 2)) (vsub (hd dq) (last dq)) in
              if vnorm wake_dir = 0 then Inl NonFinite
              else Inr (s1\<lparr>bp_trailing_edge := smul (1 / 2) (vadd (hd q) (last q)),
                            bp_wake_dir := (fst wake_dir / vnorm wake_dir,
                                            snd wake_dir / vnorm wake_dir),
                            bp_gam := replicate (length dq) 0,
                            bp_influence_matrix := None\<rparr>))
         else
           (if dq = [] then Inl IndexError
            else Inr (s1\<lparr>bp_trailing_edge := hd q,
                          bp_wake_dir := (- fst (hd dq) / vnorm (hd dq),
                                          - snd (hd dq) / vnorm (hd dq)),
                          bp_gam := replicate (length dq) 0,
                          bp_influence_matrix := None\<rparr>)))"

text \<open>
  \<open>BoundVortexPanels(body, Uinfty)\<close>: the new object has \<open>_body\<close> and the class
  attribute \<open>_core_radius = 1.e-3\<close>; every other attribute is written by \<open>_update\<close>,
  but for the two shed attributes, which stay missing.
\<close>

definition BoundVortexPanels :: "body \<Rightarrow> vec \<Rightarrow> failure + bound_panels" where
  "BoundVortexPanels b Uinfty =
     update_panels
       \<lparr>bp_body = b, bp_core_radius = 1 / 1000, bp_numpanels = 0, bp_normals = [],
        bp_xvort = [], bp_xcoll = [], bp_trailing_edge = (0, 0), bp_wake_dir = (0, 0),
        bp_gam = [], bp_influence_matrix = None, bp_x_shed = None, bp_gam_shed = None\<rparr>
       Uinfty"

definition update_positions :: "bound_panels \<Rightarrow> bound_panels" where
  "update_positions s = s\<lparr>bp_influence_matrix := None\<rparr>"

text \<open>
  The columns the \<open>influence_matrix\<close> property computes, one for each bound vortex:
  \<open>np.sum(vel * self._normals, 0)\<close> with \<open>vel\<close> the velocity a unit vortex induces at
  the collocation points.
\<close>

fun influence_columns :: "bound_panels \<Rightarrow> vec list \<Rightarrow> failure + real list list" where
  "influence_columns s [] = Inr []"
| "influence_columns s (xv # xvs) =
     (case induced_velocity_single (bp_core_radius s) (bp_xcoll s) xv 1 of
        Inl e \<Rightarrow> Inl e
      | Inr vel \<Rightarrow>
          (case influence_columns s xvs of
             Inl e \<Rightarrow> Inl e
           | Inr cols \<Rightarrow> Inr (map2 dot vel (bp_normals s) # cols)))"

text \<open>
  The \<open>influence_matrix\<close> property: the cached matrix, or the \<open>(n,n)\<close> matrix with
  \<open>A[:, i]\<close> the \<open>i\<close>-th column above, which it also stores. A matrix is the list of its
  rows.
\<close>

definition influence_matrix ::
  "bound_panels \<Rightarrow> failure + (real list list \<times> bound_panels)" where
  "influence_matrix s =
     (case bp_influence_matrix s of
        Some A \<Rightarrow> Inr (A, s)
      | None \<Rightarrow>
          (case influence_columns s (bp_xvort s) of
             Inl e \<Rightarrow> Inl e
           | Inr cols \<Rightarrow>
               (let A = map (\<lambda>j. map (\<lambda>col. col ! j) cols) [0..<bp_numpanels s]
                in Inr (A, s\<lparr>bp_influence_matrix := Some A\<rparr>))))"

definition bound_induced_velocity :: "bound_panels \<Rightarrow> vec list \<Rightarrow> failure + vec list" where
  "bound_induced_velocity s x =
     (let xvort_in = (case get_motion (bp_body s) of
                        Some m \<Rightarrow> map (map_position m) (bp_xvort s)
                      | None \<Rightarrow> bp_xvort s)
      in accumulate_velocity (bp_core_radius s) x (zip xvort_in (bp_gam s))
           (map (\<lambda>_. (0, 0)) x))"

definition compute_rhs ::
  "bound_panels \<Rightarrow> vec \<Rightarrow> free_particles option \<Rightarrow> failure + real list" where
  "compute_rhs s Uinfty wake =
     (let motion = get_motion (bp_body s);
          xcoll_inertial = (case motion of
                              Some m \<Rightarrow> map (map_position m) (bp_xcoll s)
                            | None \<Rightarrow> bp_xcoll s);
          normals_inertial = (case motion of
                                Some m \<Rightarrow> map (map_vector m) (bp_normals s)
                              | None \<Rightarrow> bp_normals s)
      in case (case wake of
                 Some w \<Rightarrow> free_induced_velocity w xcoll_inertial
               | None \<Rightarrow> Inr (replicate (bp_numpanels s) (0, 0))) of
           Inl e \<Rightarrow> Inl e
         | Inr vel \<Rightarrow>
             (let vel1 = (case motion of
                            Some m \<Rightarrow> map2 vsub vel (map (map_velocity m) (bp_xcoll s))
                          | None \<Rightarrow> vel);
                  vel2 = map (\<lambda>v. vadd v Uinfty) vel1
              in Inr (map2 (\<lambda>v n. - dot v n) vel2 normals_inertial)))"

text \<open>
  \<open>np.linalg.solve\<close> is a library routine, taken as a parameter: \<open>None\<close> is its
  \<open>LinAlgError\<close>. \<open>exact_solver\<close> says that what it returns solves the system, which
  is how the idealisation to real numbers reads "up to the tolerance of the solver".
\<close>

type_synonym solver = "real list list \<Rightarrow> real list \<Rightarrow> real list option"

definition mat_vec :: "real list list \<Rightarrow> real list \<Rightarrow> real list" where
  "mat_vec A x = map (\<lambda>row. sum_list (map2 (*) row x)) A"

definition exact_solver :: "solver \<Rightarrow> bool" where
  "exact_solver solve =
     (\<forall>A b x. solve A b = Some x \<longrightarrow> length x = length b \<and> mat_vec A x = b)"

definition update_strengths :: "solver \<Rightarrow> bound_panels \<Rightarrow> vec \<Rightarrow> failure + bound_panels" where
  "update_strengths solve s Uinfty =
     (case compute_rhs s Uinfty None of
        Inl e \<Rightarrow> Inl e
      | Inr rhs \<Rightarrow>
          (case influence_matrix s of
             Inl e \<Rightarrow> Inl e
           | Inr (A, s1) \<Rightarrow>
               (case solve A rhs of
                  None \<Rightarrow> Inl LinAlgError
                | Some gam \<Rightarrow> Inr (s1\<lparr>bp_gam := gam\<rparr>))))"

text \<open>
  \<open>update_strengths_unsteady\<close> up to the call of the solver: the position of the new
  vortex, the augmented matrix \<open>A\<close> and the right-hand side \<open>rhs\<close>, with the object as the
  \<open>influence_matrix\<close> property leaves it.
\<close>

definition unsteady_system ::
  "bound_panels \<Rightarrow> real \<Rightarrow> vec \<Rightarrow> free_particles option \<Rightarrow> real option \<Rightarrow> real \<Rightarrow>
     failure + (real list list \<times> real list \<times> vec \<times> bound_panels)" where
  "unsteady_system s dt Uinfty wake circ wake_fac =
     (let distance = wake_fac * sqrt ((fst Uinfty)\<^sup>2 + (snd Uinfty)\<^sup>2) * dt;
          x_shed = vadd (bp_trailing_edge s) (smul distance (bp_wake_dir s))
      in case induced_velocity_single (bp_core_radius s) (bp_xcoll s) x_shed 1 of
           Inl e \<Rightarrow> Inl e
         | Inr shed_vel \<Rightarrow>
             (let shed_normal = map2 dot shed_vel (bp_normals s)
              in case influence_matrix s of
                   Inl e \<Rightarrow> Inl e
                 | Inr (M, s1) \<Rightarrow>
                     (let A = map2 (\<lambda>row sn. row @ [sn]) M shed_normal
                                @ [replicate (bp_numpanels s + 1) 1]
                      in case compute_rhs s1 Uinfty wake of
                           Inl e \<Rightarrow> Inl e
                         | Inr rhs0 \<Rightarrow>
                             (let c = (case circ of
                                         Some c \<Rightarrow> c
                                       | None \<Rightarrow>
                                           (case wake of
                                              None \<Rightarrow> 0
                                            | Some w \<Rightarrow> - circulation w))
                              in Inr (A, rhs0 @ [c], x_shed, s1)))))"

text \<open>
  \<open>update_strengths_unsteady(dt, Uinfty, wake, circ, wake_fac)\<close>: solve, then
  \<open>self._gam = gam[:-1]\<close>, \<open>self._x_shed = x_shed\<close>, \<open>self._gam_shed = gam[-1]\<close>.
\<close>

definition update_strengths_unsteady ::
  "solver \<Rightarrow> bound_panels \<Rightarrow> real \<Rightarrow> vec \<Rightarrow> free_particles option \<Rightarrow> real option \<Rightarrow> real \<Rightarrow>
     failure + bound_panels" where
  "update_strengths_unsteady solve s dt Uinfty wake circ wake_fac =
     (case unsteady_system s dt Uinfty wake circ wake_fac of
        Inl e \<Rightarrow> Inl e
      | Inr (A, rhs, x_shed, s1) \<Rightarrow>
          (case solve A rhs of
             None \<Rightarrow> Inl LinAlgError
           | Some gam \<Rightarrow>
               if gam = [] then Inl IndexError
               else Inr (s1\<lparr>bp_gam := butlast gam, bp_x_shed := Some x_shed,
                             bp_gam_shed := Some (last gam)\<rparr>)))"

definition get_newly_shed :: "bound_panels \<Rightarrow> failure + (vec \<times> real)" where
  "get_newly_shed s =
     (case bp_x_shed s of
        None \<Rightarrow> Inl AttributeError
      | Some x_shed \<Rightarrow>
          (let x_shed_inertial = (case get_motion (bp_body s) of
                                    Some m \<Rightarrow> map_position m x_shed
                                  | None \<Rightarrow> x_shed)
           in case bp_gam_shed s of
                None \<Rightarrow> Inl AttributeError
              | Some gam_shed \<Rightarrow> Inr (x_shed_inertial, gam_shed)))"

section \<open>FreeVortexParticles: advection and shedding\<close>

definition add_newly_shed :: "free_particles \<Rightarrow> bound_panels \<Rightarrow> failure + free_particles" where
  "add_newly_shed w b =
     (case get_newly_shed b of
        Inl e \<Rightarrow> Inl e
      | Inr (x_vort, gam) \<Rightarrow> Inr (add_vortex w x_vort gam))"

text \<open>
  \<open>advect(dt, Uinfty, body)\<close>. Its first statement is
  \<open>self.induced_velocity(self._x_vortices)\<close>, which raises on a \<open>None\<close> array as
  described above. \<open>Uinfty\<close> may be \<open>None\<close>; \<open>Uinfty.any()\<close> is "some component is
  not zero".
\<close>

definition advect ::
  "free_particles \<Rightarrow> real \<Rightarrow> vec option \<Rightarrow> bound_panels option \<Rightarrow> failure + free_particles" where
  "advect w dt Uinfty body =
     (case fv_x_vortices w of
        None \<Rightarrow> Inl TypeError
      | Some xs \<Rightarrow>
          (case free_induced_velocity w xs of
             Inl e \<Rightarrow> Inl e
           | Inr vel \<Rightarrow>
               (case (case body of
                        None \<Rightarrow> Inr vel
                      | Some b \<Rightarrow>
                          (case bound_induced_velocity b xs of
                             Inl e \<Rightarrow> Inl e
                           | Inr bvel \<Rightarrow> Inr (map2 vadd vel bvel))) of
                  Inl e \<Rightarrow> Inl e
                | Inr vel1 \<Rightarrow>
                    (let vel2 = (case Uinfty of
                                   None \<Rightarrow> vel1
                                 | Some u \<Rightarrow>
                                     if fst u \<noteq> 0 \<or> snd u \<noteq> 0
                                     then map (\<lambda>v. vadd v u) vel1 else vel1)
                     in Inr (w\<lparr>fv_x_vortices :=
                                  Some (map2 (\<lambda>p v. vadd p (smul dt v)) xs vel2)\<rparr>)))))"

section \<open>Double precision\<close>

text \<open>
  Where a claim turns on rounding, underflow or overflow, the arithmetic is written out
  in IEEE binary64, the format of Python floats and of numpy's \<open>float64\<close>. A value is a
  finite number, an infinity or \<open>nan\<close>; a finite value is meant to be one the format
  holds, which is what every operation below returns. Zero is not signed: a division by
  zero takes the divisor as \<open>+0\<close>, which is what the kernel's divisor, a maximum of sums of
  squares, is whenever it is zero.
\<close>

datatype f64 = Finite real | PInf | NInf | NaN

text \<open>Powers of two with an integer exponent.\<close>

definition pow2i :: "int \<Rightarrow> real" where
  "pow2i k = (if 0 \<le> k then 2 ^ nat k else 1 / 2 ^ nat (- k))"

text \<open>Rounding to the nearest integer, a tie going to the even one.\<close>

definition half_even :: "real \<Rightarrow> int" where
  "half_even q =
     (let f = \<lfloor>q\<rfloor>; d = q - of_int f
      in if d < 1 / 2 then f else if 1 / 2 < d then f + 1
         else if even f then f else f + 1)"

text \<open>
  Rounding a real number to binary64, to nearest with ties to even: 53 significant bits,
  the exponent at least \<open>-1022\<close> (below it the spacing stays \<open>2^-1074\<close>, so tiny numbers
  round to zero), and an infinity from \<open>2^1024\<close> on.
\<close>

definition round64 :: "real \<Rightarrow> f64" where
  "round64 x =
     (if x = 0 then Finite 0
      else let e = max \<lfloor>log 2 \<bar>x\<bar>\<rfloor> (- 1022);
               u = pow2i (e - 52);
               r = of_int (half_even (x / u)) * u
           in if 2 ^ 1024 \<le> \<bar>r\<bar> then (if 0 < x then PInf else NInf) else Finite r)"

fun fneg :: "f64 \<Rightarrow> f64" where
  "fneg (Finite a) = Finite (- a)"
| "fneg PInf = NInf"
| "fneg NInf = PInf"
| "fneg NaN = NaN"

fun fadd :: "f64 \<Rightarrow> f64 \<Rightarrow> f64" where
  "fadd (Finite a) (Finite b) = round64 (a + b)"
| "fadd NaN _ = NaN"
| "fadd _ NaN = NaN"
| "fadd PInf NInf = NaN"
| "fadd NInf PInf = NaN"
| "fadd PInf _ = PInf"
| "fadd _ PInf = PInf"
| "fadd NInf _ = NInf"
| "fadd _ NInf = NInf"

definition fsub :: "f64 \<Rightarrow> f64 \<Rightarrow> f64" where
  "fsub a b = fadd a (fneg b)"

fun fmul :: "f64 \<Rightarrow> f64 \<Rightarrow> f64" where
  "fmul (Finite a) (Finite b) = round64 (a * b)"
| "fmul NaN _ = NaN"
| "fmul _ NaN = NaN"
| "fmul (Finite a) PInf = (if a = 0 then NaN else if 0 < a then PInf else NInf)"
| "fmul (Finite a) NInf = (if a = 0 then NaN else if 0 < a then NInf else PInf)"
| "fmul PInf (Finite b) = (if b = 0 then NaN else if 0 < b then PInf else NInf)"
| "fmul NInf (Finite b) = (if b = 0 then NaN else if 0 < b then NInf else PInf)"
| "fmul PInf PInf = PInf"
| "fmul PInf NInf = NInf"
| "fmul NInf PInf = NInf"
| "fmul NInf NInf = PInf"

text \<open>
  Division as numpy divides arrays: a zero divisor gives an infinity, or \<open>nan\<close> for
  \<open>0/0\<close>, and raises nothing.
\<close>

fun fdiv :: "f64 \<Rightarrow> f64 \<Rightarrow> f64" where
  "fdiv (Finite a) (Finite b) =
     (if b = 0 then (if a = 0 then NaN else if 0 < a then PInf else NInf)
      else round64 (a / b))"
| "fdiv NaN _ = NaN"
| "fdiv _ NaN = NaN"
| "fdiv (Finite a) PInf = Finite 0"
| "fdiv (Finite a) NInf = Finite 0"
| "fdiv PInf (Finite b) = (if 0 \<le> b then PInf else NInf)"
| "fdiv NInf (Finite b) = (if 0 \<le> b then NInf else PInf)"
| "fdiv _ _ = NaN"

text \<open>\<open>np.maximum\<close>: \<open>nan\<close> if either argument is.\<close>

fun fmax :: "f64 \<Rightarrow> f64 \<Rightarrow> f64" where
  "fmax (Finite a) (Finite b) = Finite (max a b)"
| "fmax NaN _ = NaN"
| "fmax _ NaN = NaN"
| "fmax PInf _ = PInf"
| "fmax _ PInf = PInf"
| "fmax NInf b = b"
| "fmax a NInf = a"

text \<open>
  \<open>self.core_radius**2\<close>, the core radius being a Python float like the class attribute
  \<open>1.e-3\<close>: Python's \<open>**\<close> raises \<open>OverflowError\<close> when the power is out of range and
  returns \<open>0.0\<close> when it underflows. The power is taken as the correctly rounded square.
\<close>

fun fpow2 :: "f64 \<Rightarrow> failure + f64" where
  "fpow2 (Finite a) =
     (case round64 (a * a) of Finite r \<Rightarrow> Inr (Finite r) | _ \<Rightarrow> Inl OverflowError)"
| "fpow2 PInf = Inr PInf"
| "fpow2 NInf = Inr PInf"
| "fpow2 NaN = Inr NaN"

text \<open>
  \<open>2 * np.pi\<close>: \<open>np.pi\<close> is the double \<open>884279719003555 / 2^48\<close>, and doubling it is
  exact.
\<close>

definition two_pi64 :: f64 where
  "two_pi64 = Finite (884279719003555 / 2 ^ 47)"

text \<open>
  The kernel of \<open>induced_velocity_single\<close> in binary64, operation by operation:
  \<open>r = x - xvort\<close>, \<open>np.sum(r * r, 0)\<close>, \<open>np.maximum\<close> with the squared core radius,
  and \<open>gam / (2 * np.pi) * [r[1], -r[0]] / rsq\<close> from left to right.
\<close>

definition rsq64 :: "f64 \<Rightarrow> f64 \<times> f64 \<Rightarrow> f64 \<times> f64 \<Rightarrow> f64" where
  "rsq64 r0sq x xvort =
     (let r0 = fsub (fst x) (fst xvort); r1 = fsub (snd x) (snd xvort)
      in fmax (fadd (fmul r0 r0) (fmul r1 r1)) r0sq)"

definition kernel_column64 :: "f64 \<Rightarrow> f64 \<times> f64 \<Rightarrow> f64 \<times> f64 \<Rightarrow> f64 \<Rightarrow> f64 \<times> f64" where
  "kernel_column64 r0sq x xvort gam =
     (let r0 = fsub (fst x) (fst xvort); r1 = fsub (snd x) (snd xvort);
          c = fdiv gam two_pi64
      in (fdiv (fmul c r1) (rsq64 r0sq x xvort),
          fdiv (fmul c (fneg r0)) (rsq64 r0sq x xvort)))"

definition induced_velocity_single64 ::
  "f64 \<Rightarrow> (f64 \<times> f64) list \<Rightarrow> f64 \<times> f64 \<Rightarrow> f64 \<Rightarrow> failure + (f64 \<times> f64) list" where
  "induced_velocity_single64 r0 x xvort gam =
     (case fpow2 r0 of
        Inl e \<Rightarrow> Inl e
      | Inr r0sq \<Rightarrow> Inr (map (\<lambda>p. kernel_column64 r0sq p xvort gam) x))"

text \<open>
  The wake with its strengths and running circulation in binary64. \<open>reset\<close> stores the
  integer \<open>0\<close>, and \<open>self._circulation += gamma\<close> is a float addition from the first
  call on.
\<close>

record free_particles64 =
  fv64_x_vortices :: "(f64 \<times> f64) list option"
  fv64_gamma :: "f64 list"
  fv64_num_vortices :: nat
  fv64_circulation :: f64

definition reset64 :: "free_particles64 \<Rightarrow> free_particles64" where
  "reset64 w = w\<lparr>fv64_x_vortices := None, fv64_gamma := [], fv64_num_vortices := 0,
                 fv64_circulation := Finite 0\<rparr>"

definition FreeVortexParticles64 :: free_particles64 where
  "FreeVortexParticles64 =
     reset64 \<lparr>fv64_x_vortices = None, fv64_gamma = [], fv64_num_vortices = 0,
              fv64_circulation = Finite 0\<rparr>"

definition circulation64 :: "free_particles64 \<Rightarrow> f64" where
  "circulation64 w = fv64_circulation w"

definition add_vortex64 :: "free_particles64 \<Rightarrow> f64 \<times> f64 \<Rightarrow> f64 \<Rightarrow> free_particles64" where
  "add_vortex64 w x gamma =
     w\<lparr>fv64_x_vortices :=
          (case fv64_x_vortices w of None \<Rightarrow> Some [x] | Some xs \<Rightarrow> Some (xs @ [x])),
       fv64_gamma := fv64_gamma w @ [gamma],
       fv64_num_vortices := fv64_num_vortices w + 1,
       fv64_circulation := fadd (fv64_circulation w) gamma\<rparr>"

text \<open>
  The strengths whose running sum, taken from \<open>acc\<close>, is a double at every step, so
  that no addition rounds.
\<close>

fun exact_from :: "real \<Rightarrow> real list \<Rightarrow> bool" where
  "exact_from acc [] = True"
| "exact_from acc (g # gs) = (round64 (acc + g) = Finite (acc + g) \<and> exact_from (acc + g) gs)"

text \<open>A value that is not \<open>nan\<close> and not negative.\<close>

fun nonneg64 :: "f64 \<Rightarrow> bool" where
  "nonneg64 (Finite a) = (0 \<le> a)"
| "nonneg64 PInf = True"
| "nonneg64 NInf = False"
| "nonneg64 NaN = False"

section \<open>Invariants and fixtures\<close>

text \<open>
  The shapes \<open>_update\<close> establishes and every method keeps: \<open>n\<close> normals, vortex
  positions, collocation points and strengths, and an \<open>(n,n)\<close> cached matrix. numpy
  would raise or broadcast on other shapes, which no object of the class has.
\<close>

definition panels_ok :: "bound_panels \<Rightarrow> bool" where
  "panels_ok s =
     (length (bp_normals s) = bp_numpanels s \<and> length (bp_xvort s) = bp_numpanels s \<and>
      length (bp_xcoll s) = bp_numpanels s \<and> length (bp_gam s) = bp_numpanels s \<and>
      (case bp_influence_matrix s of
         None \<Rightarrow> True
       | Some A \<Rightarrow> length A = bp_numpanels s \<and> (\<forall>row \<in> set A. length row = bp_numpanels s)))"

text \<open>
  The objects on which no unsteady solve has completed: a new object, and whatever
  \<open>update_positions\<close>, the \<open>core_radius\<close> setter, the \<open>influence_matrix\<close> property
  and the steady \<open>update_strengths\<close> make of such an object.
\<close>

inductive never_shed :: "solver \<Rightarrow> bound_panels \<Rightarrow> bool" for solve :: solver where
  created: "BoundVortexPanels b Uinfty = Inr s \<Longrightarrow> never_shed solve s"
| positions: "never_shed solve s \<Longrightarrow> never_shed solve (update_positions s)"
| radius: "never_shed solve s \<Longrightarrow> never_shed solve (s\<lparr>bp_core_radius := r\<rparr>)"
| matrix: "never_shed solve s \<Longrightarrow> influence_matrix s = Inr (A, s') \<Longrightarrow> never_shed solve s'"
| steady: "never_shed solve s \<Longrightarrow> update_strengths solve s Uinfty = Inr s' \<Longrightarrow>
           never_shed solve s'"

text \<open>
  Cramer's rule on a system of two equations, \<open>None\<close> when the matrix is singular or
  the shapes are others: an exact solver to run a body of one panel with.
\<close>

fun solve2 :: solver where
  "solve2 [[a11, a12], [a21, a22]] [b1, b2] =
     (if a11 * a22 - a12 * a21 = 0 then None
      else Some [(b1 * a22 - a12 * b2) / (a11 * a22 - a12 * a21),
                 (a11 * b2 - b1 * a21) / (a11 * a22 - a12 * a21)])"
| "solve2 _ _ = None"

text \<open>A flat plate of one panel, from the trailing edge \<open>(1,0)\<close> to the leading edge.\<close>

definition plate :: body where
  "plate = \<lparr>get_points = [(1, 0), (0, 0)], get_motion = None\<rparr>"

definition plate_panels :: bound_panels where
  "plate_panels =
     \<lparr>bp_body = plate, bp_core_radius = 1 / 1000, bp_numpanels = 1, bp_normals = [(0, 1)],
      bp_xvort = [(1 / 4, 0)], bp_xcoll = [(3 / 4, 0)], bp_trailing_edge = (1, 0),
      bp_wake_dir = (1, 0), bp_gam = [0], bp_influence_matrix = None, bp_x_shed = None,
      bp_gam_shed = None\<rparr>"

text \<open>A closed wedge of three panels with its trailing edge at \<open>(4,0)\<close>.\<close>

definition wedge :: body where
  "wedge = \<lparr>get_points = [(4, 0), (0, 3), (0, - 3), (4, 0)], get_motion = None\<rparr>"

definition wedge_panels :: bound_panels where
  "wedge_panels =
     \<lparr>bp_body = wedge, bp_core_radius = 1 / 1000, bp_numpanels = 3,
      bp_normals = [(3 / 5, 4 / 5), (- 1, 0), (3 / 5, - (4 / 5))],
      bp_xvort = [(1, 9 / 4), (0, - (3 / 2)), (1, - (9 / 4))],
      bp_xcoll = [(3, 3 / 4), (0, 3 / 2), (3, - (3 / 4))],
      bp_trailing_edge = (4, 0), bp_wake_dir = (1, 0), bp_gam = [0, 0, 0],
      bp_influence_matrix = None, bp_x_shed = None, bp_gam_shed = None\<rparr>"

text \<open>A wake of one vortex of strength 3 at \<open>(2,0)\<close>.\<close>

definition one_vortex :: free_particles where
  "one_vortex = add_vortex FreeVortexParticles (2, 0) 3"

text \<open>A wake of two unit vortices, at the origin and at \<open>(1,0)\<close>.\<close>

definition vortex_pair :: free_particles where
  "vortex_pair = add_vortex (add_vortex FreeVortexParticles (0, 0) 1) (1, 0) 1"

text \<open>
  A closed body whose first panel has length 5 and whose last panel has length 10.
\<close>

definition skew :: body where
  "skew = \<lparr>get_points = [(0, 0), (- 4, 3), (- 8, - 6), (0, 0)], get_motion = None\<rparr>"

text \<open>
  Following the words of the specification, to compare with what \<open>_update\<close> computes:
  the normalised bisector of the first and last panel directions at the trailing edge,
  that is of the unit vector along the last panel, which arrives there, and the unit
  vector against the first panel, which leaves it.
\<close>

definition normalise :: "vec \<Rightarrow> vec" where
  "normalise v = smul (1 / vnorm v) v"

definition end_panel_bisector :: "vec \<Rightarrow> vec \<Rightarrow> vec" where
  "end_panel_bisector first_panel last_panel =
     normalise (vsub (normalise last_panel) (normalise first_panel))"

section \<open>The kernel\<close>

lemma dot_self_nonneg: "0 \<le> dot a a"
  by (simp add: dot_def)

lemma vnorm_sq: "(vnorm a)\<^sup>2 = dot a a"
  by (simp add: vnorm_def dot_self_nonneg)

lemma vnorm_nonneg: "0 \<le> vnorm a"
  by (simp add: vnorm_def dot_self_nonneg)

lemma rsq_lower: "r0\<^sup>2 \<le> rsq r0 p xv"
  by (simp add: rsq_def)

lemma rsq_pos: "0 < r0 \<Longrightarrow> 0 < rsq r0 p xv"
proof -
  assume "0 < r0"
  then have "0 < r0\<^sup>2" by simp
  with rsq_lower [of r0 p xv] show ?thesis by linarith
qed

lemma single_Inr:
  "0 < r0 \<Longrightarrow>
   induced_velocity_single r0 x xv gam = Inr (map (\<lambda>p. kernel_column r0 p xv gam) x)"
proof -
  assume "0 < r0"
  then have "\<And>p. rsq r0 p xv \<noteq> 0"
    using rsq_pos [of r0] by (simp add: less_imp_neq [THEN not_sym])
  then show ?thesis
    by (simp add: induced_velocity_single_def)
qed

lemma rsq_far:
  assumes "0 < r0" "r0 < vnorm (vsub p xv)"
  shows "rsq r0 p xv = (vnorm (vsub p xv))\<^sup>2"
proof -
  have "r0\<^sup>2 \<le> (vnorm (vsub p xv))\<^sup>2"
    using assms by (intro power_mono) auto
  then show ?thesis
    by (simp add: rsq_def vnorm_sq max_def)
qed

lemma kernel_column_at_vortex: "kernel_column r0 xv xv gam = (0, 0)"
  by (simp add: kernel_column_def vsub_def)

lemma kernel_column_magnitude:
  assumes "0 < r0" "r0 < vnorm (vsub p xv)"
  shows "vnorm (kernel_column r0 p xv gam) = \<bar>gam\<bar> / (2 * pi * vnorm (vsub p xv))"
proof -
  define r where "r = vsub p xv"
  define d where "d = vnorm r"
  define c where "c = gam / (2 * pi)"
  have dpos: "0 < d" using assms by (simp add: d_def r_def)
  have dd: "d\<^sup>2 = (fst r)\<^sup>2 + (snd r)\<^sup>2"
    unfolding d_def vnorm_sq by (simp add: dot_def power2_eq_square)
  have k: "kernel_column r0 p xv gam = (c * snd r / d\<^sup>2, c * (- fst r) / d\<^sup>2)"
    using rsq_far [OF assms] by (simp add: kernel_column_def Let_def r_def d_def c_def)
  have "dot (c * snd r / d\<^sup>2, c * (- fst r) / d\<^sup>2) (c * snd r / d\<^sup>2, c * (- fst r) / d\<^sup>2)
        = (c / d\<^sup>2)\<^sup>2 * ((fst r)\<^sup>2 + (snd r)\<^sup>2)"
    by (simp add: dot_def power2_eq_square algebra_simps add_divide_distrib)
  also have "\<dots> = (c / d\<^sup>2)\<^sup>2 * d\<^sup>2"
    by (simp only: dd)
  also have "\<dots> = (c / d)\<^sup>2"
    using dpos by (simp add: power2_eq_square field_simps)
  finally have "vnorm (kernel_column r0 p xv gam) = \<bar>c / d\<bar>"
    by (simp add: k vnorm_def)
  also have "\<dots> = \<bar>gam\<bar> / (2 * pi * d)"
    using dpos by (simp add: c_def abs_mult)
  finally show ?thesis by (simp add: d_def r_def)
qed

lemma kernel_column_spec:
  "kernel_column r0 p xv gam
     = smul (gam / (2 * pi) / max ((vnorm (vsub p xv))\<^sup>2) (r0\<^sup>2))
         (snd (vsub p xv), - fst (vsub p xv))"
  by (simp add: kernel_column_def rsq_def vnorm_sq smul_def Let_def)

text \<open>
  C1. With a positive core radius \<open>r0\<close>, \<open>induced_velocity_single\<close> returns, at every
  target point, \<open>(Gamma/2pi) (r_y, -r_x) / max(|r|^2, r0^2)\<close> with \<open>r = x - xv\<close>; at a target
  farther than \<open>r0\<close> from the vortex the speed is \<open>|Gamma| / (2 pi |r|)\<close>, and at a target
  on the vortex the velocity is \<open>(0,0)\<close>.
\<close>

theorem induced_velocity_single_point_vortex:
  assumes "0 < r0"
  shows "\<exists>v. induced_velocity_single r0 xs xv gam = Inr v \<and> length v = length xs \<and>
           (\<forall>i<length xs.
              v ! i = smul (gam / (2 * pi) / max ((vnorm (vsub (xs ! i) xv))\<^sup>2) (r0\<^sup>2))
                        (snd (vsub (xs ! i) xv), - fst (vsub (xs ! i) xv)) \<and>
              (r0 < vnorm (vsub (xs ! i) xv) \<longrightarrow>
                 vnorm (v ! i) = \<bar>gam\<bar> / (2 * pi * vnorm (vsub (xs ! i) xv))) \<and>
              (xs ! i = xv \<longrightarrow> v ! i = (0, 0)))"
proof (intro exI conjI allI impI)
  let ?v = "map (\<lambda>p. kernel_column r0 p xv gam) xs"
  show "induced_velocity_single r0 xs xv gam = Inr ?v"
    using assms by (rule single_Inr)
  show "length ?v = length xs" by simp
  fix i assume i: "i < length xs"
  then have nth: "?v ! i = kernel_column r0 (xs ! i) xv gam" by simp
  show "?v ! i = smul (gam / (2 * pi) / max ((vnorm (vsub (xs ! i) xv))\<^sup>2) (r0\<^sup>2))
                        (snd (vsub (xs ! i) xv), - fst (vsub (xs ! i) xv))"
    unfolding nth by (rule kernel_column_spec)
  show "vnorm (?v ! i) = \<bar>gam\<bar> / (2 * pi * vnorm (vsub (xs ! i) xv))"
    if "r0 < vnorm (vsub (xs ! i) xv)"
    unfolding nth using assms that by (rule kernel_column_magnitude)
  show "?v ! i = (0, 0)" if "xs ! i = xv"
    unfolding nth that by (rule kernel_column_at_vortex)
qed

text \<open>
  The scenario of a unit vortex at the origin with the default core radius: the
  velocity at \<open>(1,0)\<close> is \<open>(0, -1/(2 pi))\<close>, at the origin \<open>(0,0)\<close>.
\<close>

theorem induced_velocity_single_point_vortex_witness:
  "0 < (1 / 1000 :: real) \<and>
   (\<exists>v. induced_velocity_single (1 / 1000) [(1, 0), (0, 0)] (0, 0) 1 = Inr v \<and>
        v ! 0 = (0, - 1 / (2 * pi)) \<and> vnorm (v ! 0) = 1 / (2 * pi) \<and> v ! 1 = (0, 0))"
proof -
  have h: "0 < (1 / 1000 :: real)" by simp
  have one: "vnorm (1, 0) = 1" and zero: "vnorm (0, 0) = 0"
    by (simp_all add: vnorm_def dot_def)
  have mx: "max (1::real) ((1 / 1000)\<^sup>2) = 1"
    by (simp add: power2_eq_square)
  show ?thesis
    using induced_velocity_single_point_vortex [OF h, of "[(1, 0), (0, 0)]" "(0, 0)" 1]
    by (auto simp: All_less_Suc one zero mx smul_def vsub_def)
qed

text \<open>
  C9. With a positive core radius the divisor \<open>max(|r|^2, r0^2)\<close> is at least \<open>r0^2\<close>,
  so positive, at every target; \<open>induced_velocity_single\<close> then returns a velocity for
  each target and never the non-finite outcome of a division by zero.
\<close>

theorem induced_velocity_single_finite:
  assumes "0 < r0"
  shows "(\<forall>p. r0\<^sup>2 \<le> rsq r0 p xv \<and> 0 < rsq r0 p xv) \<and>
         (\<exists>v. induced_velocity_single r0 x xv gam = Inr v \<and> length v = length x)"
  using assms rsq_lower [of r0 _ xv] rsq_pos [of r0 _ xv] single_Inr [of r0 x xv gam]
  by simp

theorem induced_velocity_single_finite_witness:
  "0 < (1 / 1000 :: real) \<and> 0 < rsq (1 / 1000) (2, 3) (2, 3) \<and>
   (\<exists>v. induced_velocity_single (1 / 1000) [(2, 3)] (2, 3) 5 = Inr v \<and> length v = 1)"
  using induced_velocity_single_finite [of "1 / 1000" "(2, 3)" "[(2, 3)]" 5]
  by simp

section \<open>The wake: circulation and the empty wake\<close>

lemma add_all_circulation:
  "circulation (foldl (\<lambda>w (x, g). add_vortex w x g) w vs)
     = circulation w + sum_list (map snd vs)"
  by (induction vs arbitrary: w) (auto simp: add_vortex_def circulation_def)

lemma add_all_num_vortices:
  "fv_num_vortices (foldl (\<lambda>w (x, g). add_vortex w x g) w vs)
     = fv_num_vortices w + length vs"
  by (induction vs arbitrary: w) (auto simp: add_vortex_def)

lemma add_all_gamma:
  "fv_gamma (foldl (\<lambda>w (x, g). add_vortex w x g) w vs) = fv_gamma w @ map snd vs"
  by (induction vs arbitrary: w) (auto simp: add_vortex_def)

lemma sum_list_strengths_mset:
  "mset vs' = mset vs \<Longrightarrow> sum_list (map snd vs') = (sum_list (map snd vs) :: real)"
proof -
  assume "mset vs' = mset vs"
  then have "mset (map snd vs') = mset (map snd vs)" by (metis mset_map)
  then show ?thesis by (metis sum_mset_sum_list)
qed

text \<open>
  C4. After \<open>reset\<close> (or construction) and any sequence of \<open>add_vortex\<close> calls, the
  \<open>circulation\<close> property is the sum of the strengths added, the particle count is the
  number of calls and the strength list holds the strengths in call order; a
  permutation of the calls gives the same circulation; \<open>reset\<close> gives circulation 0
  and count 0. Strengths are real numbers here, so the sum does not round.
\<close>

theorem add_vortex_circulation_sum:
  "circulation (foldl (\<lambda>w (x, g). add_vortex w x g) (reset w0) vs) = sum_list (map snd vs) \<and>
   fv_num_vortices (foldl (\<lambda>w (x, g). add_vortex w x g) (reset w0) vs) = length vs \<and>
   fv_gamma (foldl (\<lambda>w (x, g). add_vortex w x g) (reset w0) vs) = map snd vs \<and>
   (mset vs' = mset vs \<longrightarrow>
      circulation (foldl (\<lambda>w (x, g). add_vortex w x g) (reset w0) vs')
        = circulation (foldl (\<lambda>w (x, g). add_vortex w x g) (reset w0) vs)) \<and>
   circulation (reset w) = 0 \<and> fv_num_vortices (reset w) = 0 \<and>
   circulation FreeVortexParticles = 0 \<and> fv_num_vortices FreeVortexParticles = 0"
proof -
  have r: "circulation (reset w) = 0" "fv_num_vortices (reset w) = 0" "fv_gamma (reset w) = []" for w
    by (simp_all add: reset_def circulation_def)
  show ?thesis
    using sum_list_strengths_mset [of vs' vs]
    by (simp add: add_all_circulation add_all_num_vortices add_all_gamma r
        FreeVortexParticles_def)
qed

theorem add_vortex_circulation_sum_witness:
  "mset [((1, 0), 2), ((0, 0), 1 :: real)] = mset [((0 :: real, 0 :: real), 1), ((1, 0), 2)] \<and>
   circulation (foldl (\<lambda>w (x, g). add_vortex w x g) (reset FreeVortexParticles)
                  [((1, 0), 2), ((0, 0), 1)]) = 3 \<and>
   circulation (foldl (\<lambda>w (x, g). add_vortex w x g) (reset FreeVortexParticles)
                  [((0, 0), 1), ((1, 0), 2)]) = 3"
proof -
  have m: "mset [((1, 0), 2), ((0, 0), 1 :: real)] = mset [((0 :: real, 0 :: real), 1), ((1, 0), 2)]"
    by (simp add: add_mset_commute)
  from add_vortex_circulation_sum [of FreeVortexParticles "[((0, 0), 1), ((1, 0), 2)]"
      "[((1, 0), 2), ((0, 0), 1)]"] m
  show ?thesis by simp
qed

text \<open>
  C6. \<open>reset\<close> zeroes the circulation and the particle count, but it also puts \<open>None\<close>
  in place of the position array, and \<open>induced_velocity\<close> then raises \<open>TypeError\<close>
  for every array of targets instead of returning zero vectors.
\<close>

theorem induced_velocity_after_reset:
  "circulation (reset w) = 0 \<and> fv_num_vortices (reset w) = 0 \<and>
   free_induced_velocity (reset w) x = Inl TypeError \<and>
   raises (free_induced_velocity (reset w) x)"
  by (simp add: reset_def circulation_def free_induced_velocity_def raises_def)

text \<open>
  C7. \<open>advect\<close> on a wake with no particle, new or reset, raises \<open>TypeError\<close> for every
  time step, free stream and body: its first statement is an \<open>induced_velocity\<close> call
  on the \<open>None\<close> array.
\<close>

theorem advect_empty_raises:
  "advect (reset w) dt Uinfty body = Inl TypeError \<and>
   advect FreeVortexParticles dt Uinfty body = Inl TypeError \<and>
   raises (advect FreeVortexParticles dt Uinfty body)"
  by (simp add: reset_def FreeVortexParticles_def advect_def raises_def)

text \<open>A wake emptied by \<open>reset\<close> and a new wake, advected beside the one-panel plate.\<close>

theorem advect_empty_raises_witness:
  "advect (reset vortex_pair) (1 / 10) (Some (1, 0)) (Some plate_panels) = Inl TypeError \<and>
   advect FreeVortexParticles (1 / 10) (Some (1, 0)) (Some plate_panels) = Inl TypeError"
  using advect_empty_raises [of vortex_pair "1 / 10" "Some (1, 0)" "Some plate_panels"]
  by blast


section \<open>Construction and the trailing edge\<close>

lemma panel_differences:
  assumes "i + 1 < length q"
  shows "map2 (\<lambda>a b. vsub b a) (butlast q) (tl q) ! i = vsub (q ! (i + 1)) (q ! i)"
  using assms by (simp add: nth_butlast nth_tl)

lemma panel_count: "length (map2 (\<lambda>a b. vsub b a) (butlast q) (tl q)) = length q - 1"
  by simp

lemma vnorm_normalised:
  assumes "vnorm a \<noteq> 0"
  shows "vnorm (fst a / vnorm a, snd a / vnorm a) = 1"
proof -
  have "dot (fst a / vnorm a, snd a / vnorm a) (fst a / vnorm a, snd a / vnorm a)
          = dot a a / (vnorm a)\<^sup>2"
    by (simp add: dot_def power2_eq_square add_divide_distrib)
  also have "\<dots> = 1"
    using assms by (simp add: vnorm_sq [symmetric])
  finally show ?thesis by (simp add: vnorm_def)
qed

lemma vnorm_neg: "vnorm (- fst a, - snd a) = vnorm a"
  by (simp add: vnorm_def dot_def)

lemma update_panels_Inr:
  assumes "update_panels s Uinfty = Inr s'"
  defines "q \<equiv> get_points (bp_body s)"
  defines "dq \<equiv> map2 (\<lambda>a b. vsub b a) (butlast q) (tl q)"
  defines "wd \<equiv> smul (- (1 / 2)) (vsub (hd dq) (last dq))"
  shows "q \<noteq> [] \<and> dq \<noteq> [] \<and> vnorm (hd dq) \<noteq> 0 \<and>
         (vnorm (vsub (hd q) (last q)) < 5 / 1000 \<longrightarrow>
            vnorm wd \<noteq> 0 \<and>
            bp_trailing_edge s' = smul (1 / 2) (vadd (hd q) (last q)) \<and>
            bp_wake_dir s' = (fst wd / vnorm wd, snd wd / vnorm wd)) \<and>
         (\<not> vnorm (vsub (hd q) (last q)) < 5 / 1000 \<longrightarrow>
            bp_trailing_edge s' = hd q \<and>
            bp_wake_dir s' = (- fst (hd dq) / vnorm (hd dq), - snd (hd dq) / vnorm (hd dq)))"
proof -
  have zero: "\<not> (\<exists>d \<in> set dq. vnorm d = 0)"
    using assms(1) unfolding update_panels_def Let_def q_def [symmetric] dq_def [symmetric]
    by (simp split: if_splits)
  have q: "q \<noteq> []"
    using assms(1) zero unfolding update_panels_def Let_def q_def [symmetric] dq_def [symmetric]
    by (simp split: if_splits)
  have dq: "dq \<noteq> []"
    using assms(1) zero q unfolding update_panels_def Let_def q_def [symmetric] dq_def [symmetric]
    by (simp split: if_splits)
  have hd: "vnorm (hd dq) \<noteq> 0"
    using zero dq by auto
  have closed: "vnorm wd \<noteq> 0 \<and>
            bp_trailing_edge s' = smul (1 / 2) (vadd (hd q) (last q)) \<and>
            bp_wake_dir s' = (fst wd / vnorm wd, snd wd / vnorm wd)"
    if "vnorm (vsub (hd q) (last q)) < 5 / 1000"
    using assms(1) zero q dq that
    unfolding update_panels_def Let_def q_def [symmetric] dq_def [symmetric] wd_def [symmetric]
    by (auto split: if_splits)
  have "open": "bp_trailing_edge s' = hd q \<and>
            bp_wake_dir s' = (- fst (hd dq) / vnorm (hd dq), - snd (hd dq) / vnorm (hd dq))"
    if "\<not> vnorm (vsub (hd q) (last q)) < 5 / 1000"
    using assms(1) zero q dq that
    unfolding update_panels_def Let_def q_def [symmetric] dq_def [symmetric]
    by (auto split: if_splits)
  show ?thesis using q dq hd closed "open" by blast
qed


text \<open>
  C5. A new \<open>BoundVortexPanels\<close> object has at least two boundary points \<open>q\<close>. When
  the first and the last are less than 0.005 apart the body is closed: the trailing
  edge is their midpoint and the wake direction is \<open>-0.5 (dq_first - dq_last)\<close>, the
  bisector of the first and last panel vectors, divided by its length. Otherwise the
  body is thin: the trailing edge is the first point and the wake direction is minus
  the first panel vector divided by its length. Either way the wake direction has
  length 1.
\<close>

theorem trailing_edge_descriptor:
  assumes "BoundVortexPanels b Uinfty = Inr s"
  defines "q \<equiv> get_points b"
  defines "first_panel \<equiv> vsub (q ! 1) (q ! 0)"
  defines "last_panel \<equiv> vsub (q ! (length q - 1)) (q ! (length q - 2))"
  defines "bisector \<equiv> smul (- (1 / 2)) (vsub first_panel last_panel)"
  shows "2 \<le> length q \<and>
         (vnorm (vsub (q ! 0) (q ! (length q - 1))) < 5 / 1000 \<longrightarrow>
            bp_trailing_edge s = smul (1 / 2) (vadd (q ! 0) (q ! (length q - 1))) \<and>
            bp_wake_dir s = smul (1 / vnorm bisector) bisector) \<and>
         (\<not> vnorm (vsub (q ! 0) (q ! (length q - 1))) < 5 / 1000 \<longrightarrow>
            bp_trailing_edge s = q ! 0 \<and>
            bp_wake_dir s = smul (- (1 / vnorm first_panel)) first_panel) \<and>
         vnorm (bp_wake_dir s) = 1"
proof -
  define dq where "dq = map2 (\<lambda>a b. vsub b a) (butlast q) (tl q)"
  define wd where "wd = smul (- (1 / 2)) (vsub (hd dq) (last dq))"
  let ?blank = "\<lparr>bp_body = b, bp_core_radius = 1 / 1000, bp_numpanels = 0, bp_normals = [],
        bp_xvort = [], bp_xcoll = [], bp_trailing_edge = (0, 0), bp_wake_dir = (0, 0),
        bp_gam = [], bp_influence_matrix = None, bp_x_shed = None, bp_gam_shed = None\<rparr>"
  have run: "update_panels ?blank Uinfty = Inr s"
    using assms(1) by (simp add: BoundVortexPanels_def)
  have qb: "get_points (bp_body ?blank) = q"
    by (simp add: q_def)
  note facts = update_panels_Inr [OF run, unfolded qb, folded dq_def, folded wd_def]
  from facts have q: "q \<noteq> []" and dq: "dq \<noteq> []" and hd0: "vnorm (hd dq) \<noteq> 0"
    by blast+
  have "length dq \<noteq> 0"
    using dq by simp
  then have len: "2 \<le> length q"
    unfolding dq_def panel_count by simp
  have hdq: "hd q = q ! 0" and lastq: "last q = q ! (length q - 1)"
    using q by (simp_all add: hd_conv_nth last_conv_nth)
  have "hd dq = dq ! 0"
    using dq by (simp add: hd_conv_nth)
  also have "\<dots> = first_panel"
    using len panel_differences [of 0 q] by (simp add: dq_def first_panel_def)
  finally have hd: "hd dq = first_panel" .
  have i1: "length q - 2 + 1 < length q" and i2: "length q - 2 + 1 = length q - 1"
    and i3: "length dq - 1 = length q - 2"
    using len by (simp_all add: dq_def)
  have "last dq = dq ! (length dq - 1)"
    using dq by (rule last_conv_nth)
  also have "\<dots> = dq ! (length q - 2)"
    by (simp only: i3)
  also have "\<dots> = last_panel"
    unfolding dq_def last_panel_def panel_differences [OF i1] i2 ..
  finally have lst: "last dq = last_panel" .
  have wd: "wd = bisector"
    by (simp add: wd_def bisector_def hd lst)
  have closed: "bp_trailing_edge s = smul (1 / 2) (vadd (q ! 0) (q ! (length q - 1))) \<and>
                bp_wake_dir s = smul (1 / vnorm bisector) bisector \<and>
                vnorm (bp_wake_dir s) = 1"
    if c: "vnorm (vsub (q ! 0) (q ! (length q - 1))) < 5 / 1000"
  proof -
    from facts c have n0: "vnorm wd \<noteq> 0"
      and te: "bp_trailing_edge s = smul (1 / 2) (vadd (hd q) (last q))"
      and dir: "bp_wake_dir s = (fst wd / vnorm wd, snd wd / vnorm wd)"
      by (simp_all add: hdq lastq)
    show ?thesis
      using te dir vnorm_normalised [OF n0]
      by (simp add: hdq lastq wd smul_def)
  qed
  have "open": "bp_trailing_edge s = q ! 0 \<and>
                bp_wake_dir s = smul (- (1 / vnorm first_panel)) first_panel \<and>
                vnorm (bp_wake_dir s) = 1"
    if c: "\<not> vnorm (vsub (q ! 0) (q ! (length q - 1))) < 5 / 1000"
  proof -
    from facts c have te: "bp_trailing_edge s = hd q"
      and dir: "bp_wake_dir s
                  = (- fst (hd dq) / vnorm (hd dq), - snd (hd dq) / vnorm (hd dq))"
      by (simp_all add: hdq lastq)
    have "vnorm (- fst first_panel / vnorm first_panel, - snd first_panel / vnorm first_panel)
            = vnorm (fst first_panel / vnorm first_panel, snd first_panel / vnorm first_panel)"
      using vnorm_neg [of "(fst first_panel / vnorm first_panel, snd first_panel / vnorm first_panel)"]
      by simp
    also have "\<dots> = 1"
      using hd0 by (intro vnorm_normalised) (simp add: hd)
    finally show ?thesis
      using te dir by (simp add: hdq hd smul_def)
  qed
  show ?thesis
    using len closed "open" by blast
qed

lemma plate_created: "BoundVortexPanels plate (1, 0) = Inr plate_panels"
  by (simp add: BoundVortexPanels_def update_panels_def plate_def plate_panels_def Let_def
      vsub_def vadd_def smul_def vnorm_def dot_def)

lemma sqrt_squares: "sqrt 16 = 4" "sqrt 25 = 5" "sqrt 36 = 6"
  using real_sqrt_abs [of 4] real_sqrt_abs [of 5] real_sqrt_abs [of 6] by simp_all

lemma wedge_created: "BoundVortexPanels wedge (1, 0) = Inr wedge_panels"
  by (simp add: BoundVortexPanels_def update_panels_def wedge_def wedge_panels_def Let_def
      vsub_def vadd_def smul_def vnorm_def dot_def sqrt_squares)


theorem trailing_edge_descriptor_witness:
  "BoundVortexPanels wedge (1, 0) = Inr wedge_panels \<and>
   vnorm (vsub (4, 0) (4, 0)) < 5 / 1000 \<and>
   bp_trailing_edge wedge_panels = (4, 0) \<and> bp_wake_dir wedge_panels = (1, 0) \<and>
   BoundVortexPanels plate (1, 0) = Inr plate_panels \<and>
   \<not> vnorm (vsub (1, 0) (0, 0)) < 5 / 1000 \<and>
   bp_trailing_edge plate_panels = (1, 0) \<and> bp_wake_dir plate_panels = (1, 0)"
proof -
  have closed: "vnorm (vsub (4, 0) (4, 0)) < 5 / 1000 \<and>
      bp_trailing_edge wedge_panels = (4, 0) \<and> bp_wake_dir wedge_panels = (1, 0)"
    using trailing_edge_descriptor [OF wedge_created]
    by (simp add: wedge_def vsub_def vadd_def smul_def vnorm_def dot_def sqrt_squares)
  have thin: "\<not> vnorm (vsub (1, 0) (0, 0)) < 5 / 1000 \<and>
      bp_trailing_edge plate_panels = (1, 0) \<and> bp_wake_dir plate_panels = (1, 0)"
    using trailing_edge_descriptor [OF plate_created]
    by (simp add: plate_def vsub_def vadd_def smul_def vnorm_def dot_def)
  show ?thesis
    using closed thin wedge_created plate_created by blast
qed

section \<open>The unsteady solve\<close>

lemma influence_matrix_fields:
  assumes "influence_matrix s = Inr (M, s1)"
  shows "s1 = s\<lparr>bp_influence_matrix := Some M\<rparr>"
  using assms by (auto simp: influence_matrix_def Let_def split: option.splits sum.splits)

lemma unsteady_system_parts:
  assumes "unsteady_system s dt Uinfty wake circ wake_fac = Inr (A, rhs, x_shed, s1)"
  shows "\<exists>M rows rhs0.
           influence_matrix s = Inr (M, s1) \<and>
           compute_rhs s1 Uinfty wake = Inr rhs0 \<and>
           A = rows @ [replicate (bp_numpanels s + 1) 1] \<and>
           rhs = rhs0 @ [case circ of Some c \<Rightarrow> c
                         | None \<Rightarrow> (case wake of None \<Rightarrow> 0 | Some w \<Rightarrow> - circulation w)] \<and>
           x_shed = vadd (bp_trailing_edge s)
                      (smul (wake_fac * sqrt ((fst Uinfty)\<^sup>2 + (snd Uinfty)\<^sup>2) * dt)
                         (bp_wake_dir s))"
  using assms
  by (auto simp: unsteady_system_def Let_def split: sum.splits prod.splits)

lemma update_strengths_unsteady_parts:
  assumes "update_strengths_unsteady solve s dt Uinfty wake circ wake_fac = Inr s'"
  shows "\<exists>A rhs x_shed s1 gam.
           unsteady_system s dt Uinfty wake circ wake_fac = Inr (A, rhs, x_shed, s1) \<and>
           solve A rhs = Some gam \<and> gam \<noteq> [] \<and>
           s' = s1\<lparr>bp_gam := butlast gam, bp_x_shed := Some x_shed,
                    bp_gam_shed := Some (last gam)\<rparr>"
  using assms
  by (auto simp: update_strengths_unsteady_def split: sum.splits prod.splits option.splits if_splits)


lemma plate_kernel_shed:
  "induced_velocity_single (1 / 1000) [(3 / 4, 0)] (5 / 4, 0) 1 = Inr [(0, 1 / pi)]"
  by (simp add: induced_velocity_single_def kernel_column_def rsq_def vsub_def dot_def Let_def
      power2_eq_square)

lemma plate_kernel_bound:
  "induced_velocity_single (1 / 1000) [(3 / 4, 0)] (1 / 4, 0) 1 = Inr [(0, - (1 / pi))]"
  by (simp add: induced_velocity_single_def kernel_column_def rsq_def vsub_def dot_def Let_def
      power2_eq_square)

lemma plate_matrix:
  "influence_matrix plate_panels
     = Inr ([[- (1 / pi)]], plate_panels\<lparr>bp_influence_matrix := Some [[- (1 / pi)]]\<rparr>)"
  by (simp add: influence_matrix_def plate_panels_def plate_kernel_bound dot_def Let_def)

lemma plate_system:
  "unsteady_system plate_panels 1 (0, 1) None (Some 2) (1 / 4)
     = Inr ([[- (1 / pi), 1 / pi], [1, 1]], [- 1, 2], (5 / 4, 0),
            plate_panels\<lparr>bp_influence_matrix := Some [[- (1 / pi)]]\<rparr>)"
  using plate_matrix
  by (simp add: unsteady_system_def plate_panels_def plate_kernel_shed compute_rhs_def plate_def
      vadd_def smul_def dot_def Let_def numeral_2_eq_2)


lemma single_length:
  "induced_velocity_single r0 x xv gam = Inr v \<Longrightarrow> length v = length x"
  by (auto simp: induced_velocity_single_def split: if_splits)

lemma accumulate_velocity_length:
  "accumulate_velocity r0 x zs vel = Inr v \<Longrightarrow> length vel = length x \<Longrightarrow> length v = length x"
proof (induction zs arbitrary: vel)
  case Nil
  then show ?case by simp
next
  case (Cons z zs)
  obtain xv gam where z: "z = (xv, gam)" by (cases z)
  from Cons.prems(1) obtain u where u: "induced_velocity_single r0 x xv gam = Inr u"
    and rest: "accumulate_velocity r0 x zs (map2 vadd vel u) = Inr v"
    by (auto simp: z split: sum.splits)
  have "length (map2 vadd vel u) = length x"
    using single_length [OF u] Cons.prems(2) by simp
  with Cons.IH [OF rest] show ?case .
qed

lemma free_induced_velocity_length:
  "free_induced_velocity w x = Inr v \<Longrightarrow> length v = length x"
  by (auto simp: free_induced_velocity_def split: option.splits
      intro: accumulate_velocity_length)

lemma compute_rhs_length:
  assumes "compute_rhs s Uinfty wake = Inr rhs0"
    and "length (bp_normals s) = bp_numpanels s" "length (bp_xcoll s) = bp_numpanels s"
  shows "length rhs0 = bp_numpanels s"
proof -
  let ?xc = "case get_motion (bp_body s) of
               Some m \<Rightarrow> map (map_position m) (bp_xcoll s) | None \<Rightarrow> bp_xcoll s"
  have lxc: "length ?xc = bp_numpanels s"
    using assms(3) by (simp split: option.splits)
  from assms(1) obtain vel where
    vel: "(case wake of Some w \<Rightarrow> free_induced_velocity w ?xc
           | None \<Rightarrow> Inr (replicate (bp_numpanels s) (0, 0))) = Inr vel"
    by (auto simp: compute_rhs_def Let_def split: sum.splits)
  have lvel: "length vel = bp_numpanels s"
  proof (cases wake)
    case None
    with vel show ?thesis by auto
  next
    case (Some w)
    with vel have "free_induced_velocity w ?xc = Inr vel" by simp
    from free_induced_velocity_length [OF this] lxc show ?thesis by simp
  qed
  from assms(1) vel show ?thesis
    using lvel assms(2,3)
    by (auto simp: compute_rhs_def Let_def split: option.splits)
qed

lemma dot_ones: "length x \<le> n \<Longrightarrow> sum_list (map2 (*) (replicate n (1::real)) x) = sum_list x"
proof (induction x arbitrary: n)
  case Nil
  then show ?case by simp
next
  case (Cons a x)
  then obtain m where "n = Suc m" by (cases n) auto
  with Cons show ?case by simp
qed

lemma mat_vec_last_row:
  assumes "mat_vec (rows @ [r]) x = b @ [c]"
  shows "sum_list (map2 (*) r x) = c"
proof -
  from assms have "last (mat_vec (rows @ [r]) x) = last (b @ [c])" by simp
  then show ?thesis by (simp add: mat_vec_def)
qed

lemma sum_list_butlast_last:
  "gam \<noteq> [] \<Longrightarrow> sum_list (butlast gam) + last gam = (sum_list gam :: real)"
  by (induction gam) auto

lemma update_panels_ok: "update_panels s Uinfty = Inr s' \<Longrightarrow> panels_ok s'"
  unfolding update_panels_def Let_def
  by (auto simp: panels_ok_def split: if_splits)

lemma created_panels_ok: "BoundVortexPanels b Uinfty = Inr s \<Longrightarrow> panels_ok s"
  unfolding BoundVortexPanels_def by (rule update_panels_ok)

lemma influence_columns_length:
  "influence_columns s xvs = Inr cols \<Longrightarrow> length cols = length xvs"
  by (induction xvs arbitrary: cols) (auto split: sum.splits)

lemma influence_matrix_ok:
  assumes "influence_matrix s = Inr (M, s1)" "panels_ok s"
  shows "panels_ok s1"
proof (cases "bp_influence_matrix s")
  case None
  with assms(1) obtain cols where cols: "influence_columns s (bp_xvort s) = Inr cols"
    and M: "M = map (\<lambda>j. map (\<lambda>col. col ! j) cols) [0..<bp_numpanels s]"
    and s1: "s1 = s\<lparr>bp_influence_matrix := Some M\<rparr>"
    by (auto simp: influence_matrix_def Let_def split: sum.splits)
  have "length cols = bp_numpanels s"
    using influence_columns_length [OF cols] assms(2) by (simp add: panels_ok_def)
  then show ?thesis
    using assms(2) by (auto simp: panels_ok_def s1 M)
next
  case (Some A)
  with assms show ?thesis
    by (auto simp: influence_matrix_def)
qed

lemma update_strengths_unsteady_ok:
  assumes "exact_solver solve" and "panels_ok s"
    and "update_strengths_unsteady solve s dt Uinfty wake circ wake_fac = Inr s'"
  shows "panels_ok s'"
proof -
  from update_strengths_unsteady_parts [OF assms(3)]
  obtain A rhs x_shed s1 gam where
    sys: "unsteady_system s dt Uinfty wake circ wake_fac = Inr (A, rhs, x_shed, s1)"
    and sol: "solve A rhs = Some gam" and ne: "gam \<noteq> []"
    and s': "s' = s1\<lparr>bp_gam := butlast gam, bp_x_shed := Some x_shed,
                      bp_gam_shed := Some (last gam)\<rparr>"
    by blast
  from unsteady_system_parts [OF sys]
  obtain M rhs0 c where im: "influence_matrix s = Inr (M, s1)"
    and rhs0: "compute_rhs s1 Uinfty wake = Inr rhs0" and rhs: "rhs = rhs0 @ [c]"
    by blast
  have ok1: "panels_ok s1"
    using im assms(2) by (rule influence_matrix_ok)
  then have "length rhs0 = bp_numpanels s1"
    using rhs0 by (intro compute_rhs_length) (simp_all add: panels_ok_def)
  moreover have "length gam = length rhs"
    using assms(1) sol by (simp add: exact_solver_def)
  ultimately have "length (butlast gam) = bp_numpanels s1"
    by (simp add: rhs)
  with ok1 show ?thesis
    by (auto simp: panels_ok_def s' split: option.splits)
qed

text \<open>
  C2. When \<open>update_strengths_unsteady\<close> completes, with a solver whose answer solves
  the system it is given, the \<open>n\<close> panel strengths and the strength of the shed vortex
  sum to the total circulation: \<open>circ\<close> when supplied, else its default. The last row of
  the augmented matrix is all ones and the last right-hand side is that total.
\<close>

theorem kelvin_circulation:
  assumes "exact_solver solve" and "panels_ok s"
    and "update_strengths_unsteady solve s dt Uinfty wake circ wake_fac = Inr s'"
  defines "target \<equiv> (case circ of Some c \<Rightarrow> c
                     | None \<Rightarrow> (case wake of None \<Rightarrow> 0 | Some w \<Rightarrow> - circulation w))"
  shows "\<exists>A rhs x_shed s1 gam.
           unsteady_system s dt Uinfty wake circ wake_fac = Inr (A, rhs, x_shed, s1) \<and>
           last A = replicate (bp_numpanels s + 1) 1 \<and> last rhs = target \<and>
           solve A rhs = Some gam \<and> length gam = bp_numpanels s + 1 \<and>
           bp_gam s' = butlast gam \<and> bp_gam_shed s' = Some (last gam) \<and>
           sum_list (bp_gam s') + last gam = target"
proof -
  from update_strengths_unsteady_parts [OF assms(3)]
  obtain A rhs x_shed s1 gam where
    sys: "unsteady_system s dt Uinfty wake circ wake_fac = Inr (A, rhs, x_shed, s1)"
    and sol: "solve A rhs = Some gam" and ne: "gam \<noteq> []"
    and s': "s' = s1\<lparr>bp_gam := butlast gam, bp_x_shed := Some x_shed,
                      bp_gam_shed := Some (last gam)\<rparr>"
    by blast
  from unsteady_system_parts [OF sys]
  obtain M rows rhs0 where
    im: "influence_matrix s = Inr (M, s1)"
    and rhs0: "compute_rhs s1 Uinfty wake = Inr rhs0"
    and A: "A = rows @ [replicate (bp_numpanels s + 1) 1]"
    and rhs: "rhs = rhs0 @ [target]"
    unfolding target_def by blast
  have s1: "s1 = s\<lparr>bp_influence_matrix := Some M\<rparr>"
    using im by (rule influence_matrix_fields)
  have "length rhs0 = bp_numpanels s1"
    using rhs0 assms(2) by (intro compute_rhs_length) (simp_all add: s1 panels_ok_def)
  then have lrhs: "length rhs = bp_numpanels s + 1"
    by (simp add: rhs s1)
  from assms(1) sol have lgam: "length gam = length rhs" and eq: "mat_vec A gam = rhs"
    by (simp_all add: exact_solver_def)
  have "sum_list (map2 (*) (replicate (bp_numpanels s + 1) 1) gam) = target"
    using eq unfolding A rhs by (rule mat_vec_last_row)
  moreover have "sum_list (map2 (*) (replicate (bp_numpanels s + 1) 1) gam) = sum_list gam"
    using lgam lrhs by (intro dot_ones) simp
  ultimately have "sum_list gam = target"
    by (simp only:)
  then have "sum_list (bp_gam s') + last gam = target"
    using sum_list_butlast_last [OF ne] by (simp add: s')
  moreover have "last A = replicate (bp_numpanels s + 1) 1" "last rhs = target"
    by (simp_all add: A rhs)
  moreover have "length gam = bp_numpanels s + 1"
    using lgam lrhs by simp
  moreover have "bp_gam s' = butlast gam" "bp_gam_shed s' = Some (last gam)"
    by (simp_all add: s')
  ultimately show ?thesis
    using sys sol by blast
qed

lemma cramer_rows:
  fixes a11 a12 a21 a22 b1 b2 :: real
  assumes "a11 * a22 - a12 * a21 \<noteq> 0"
  shows "a11 * ((b1 * a22 - a12 * b2) / (a11 * a22 - a12 * a21))
           + a12 * ((a11 * b2 - b1 * a21) / (a11 * a22 - a12 * a21)) = b1"
    and "a21 * ((b1 * a22 - a12 * b2) / (a11 * a22 - a12 * a21))
           + a22 * ((a11 * b2 - b1 * a21) / (a11 * a22 - a12 * a21)) = b2"
proof -
  define D where "D = a11 * a22 - a12 * a21"
  have D0: "D \<noteq> 0" using assms by (simp add: D_def)
  have e1: "a11 * (b1 * a22 - a12 * b2) + a12 * (a11 * b2 - b1 * a21) = b1 * D"
    and e2: "a21 * (b1 * a22 - a12 * b2) + a22 * (a11 * b2 - b1 * a21) = b2 * D"
    by (simp_all add: D_def algebra_simps)
  have "a11 * ((b1 * a22 - a12 * b2) / D) + a12 * ((a11 * b2 - b1 * a21) / D)
          = (a11 * (b1 * a22 - a12 * b2) + a12 * (a11 * b2 - b1 * a21)) / D"
    by (simp add: add_divide_distrib)
  also have "\<dots> = b1" unfolding e1 using D0 by simp
  finally show "a11 * ((b1 * a22 - a12 * b2) / (a11 * a22 - a12 * a21))
           + a12 * ((a11 * b2 - b1 * a21) / (a11 * a22 - a12 * a21)) = b1"
    by (simp only: D_def)
  have "a21 * ((b1 * a22 - a12 * b2) / D) + a22 * ((a11 * b2 - b1 * a21) / D)
          = (a21 * (b1 * a22 - a12 * b2) + a22 * (a11 * b2 - b1 * a21)) / D"
    by (simp add: add_divide_distrib)
  also have "\<dots> = b2" unfolding e2 using D0 by simp
  finally show "a21 * ((b1 * a22 - a12 * b2) / (a11 * a22 - a12 * a21))
           + a22 * ((a11 * b2 - b1 * a21) / (a11 * a22 - a12 * a21)) = b2"
    by (simp only: D_def)
qed

lemma solve2_exact: "exact_solver solve2"
proof -
  have "length x = length b \<and> mat_vec A x = b" if "solve2 A b = Some x" for A b x
    using that
  proof (induction A b rule: solve2.induct)
    case (1 a11 a12 a21 a22 b1 b2)
    then have det: "a11 * a22 - a12 * a21 \<noteq> 0"
      and x: "x = [(b1 * a22 - a12 * b2) / (a11 * a22 - a12 * a21),
                   (a11 * b2 - b1 * a21) / (a11 * a22 - a12 * a21)]"
      by (auto split: if_splits)
    show ?case
      unfolding x mat_vec_def using cramer_rows [OF det, of b1 b2]
      by simp
  qed simp_all
  then show ?thesis by (simp add: exact_solver_def)
qed

lemma plate_ok: "panels_ok plate_panels"
  by (simp add: panels_ok_def plate_panels_def)

lemma plate_solve:
  "update_strengths_unsteady solve2 plate_panels 1 (0, 1) None (Some 2) (1 / 4)
     = Inr (plate_panels\<lparr>bp_influence_matrix := Some [[- (1 / pi)]],
              bp_gam := [pi / 2 + 1], bp_x_shed := Some (5 / 4, 0),
              bp_gam_shed := Some (1 - pi / 2)\<rparr>)"
  by (simp add: update_strengths_unsteady_def plate_system field_simps)

theorem kelvin_circulation_witness:
  "exact_solver solve2 \<and> panels_ok plate_panels \<and>
   update_strengths_unsteady solve2 plate_panels 1 (0, 1) None (Some 2) (1 / 4)
     = Inr (plate_panels\<lparr>bp_influence_matrix := Some [[- (1 / pi)]],
              bp_gam := [pi / 2 + 1], bp_x_shed := Some (5 / 4, 0),
              bp_gam_shed := Some (1 - pi / 2)\<rparr>) \<and>
   sum_list [pi / 2 + 1] + (1 - pi / 2) = 2"
proof -
  let ?s' = "plate_panels\<lparr>bp_influence_matrix := Some [[- (1 / pi)]],
              bp_gam := [pi / 2 + 1], bp_x_shed := Some (5 / 4, 0),
              bp_gam_shed := Some (1 - pi / 2)\<rparr>"
  from kelvin_circulation [OF solve2_exact plate_ok plate_solve]
  obtain gam where "bp_gam ?s' = butlast gam" "bp_gam_shed ?s' = Some (last gam)"
    "sum_list (bp_gam ?s') + last gam
       = (case Some (2 :: real) of
            Some c \<Rightarrow> c
          | None \<Rightarrow> (case (None :: free_particles option) of
                       None \<Rightarrow> 0 | Some w \<Rightarrow> - circulation w))"
    by blast
  then have "sum_list [pi / 2 + 1] + (1 - pi / 2) = 2"
    by simp
  then show ?thesis
    using solve2_exact plate_ok plate_solve by blast
qed

text \<open>
  C3. In the system \<open>update_strengths_unsteady\<close> hands to the solver the last row is
  all ones, and its right-hand side is 0 when neither \<open>circ\<close> nor a wake is supplied,
  minus the circulation of the wake when only the wake is supplied, and \<open>circ\<close> when it
  is supplied.
\<close>

theorem default_total_circulation:
  assumes "unsteady_system s dt Uinfty wake circ wake_fac = Inr (A, rhs, x_shed, s1)"
  shows "A \<noteq> [] \<and> last A = replicate (bp_numpanels s + 1) 1 \<and> rhs \<noteq> [] \<and>
         (circ = None \<and> wake = None \<longrightarrow> last rhs = 0) \<and>
         (\<forall>w. circ = None \<and> wake = Some w \<longrightarrow> last rhs = - circulation w) \<and>
         (\<forall>c. circ = Some c \<longrightarrow> last rhs = c)"
proof -
  from unsteady_system_parts [OF assms]
  obtain rows rhs0 where
    A: "A = rows @ [replicate (bp_numpanels s + 1) 1]"
    and rhs: "rhs = rhs0 @ [case circ of Some c \<Rightarrow> c
                | None \<Rightarrow> (case wake of None \<Rightarrow> 0 | Some w \<Rightarrow> - circulation w)]"
    by blast
  show ?thesis
    unfolding A rhs by simp
qed

lemma one_vortex_velocity:
  "free_induced_velocity one_vortex [(3 / 4, 0)] = Inr [(0, 6 / (5 * pi))]"
  by (simp add: one_vortex_def add_vortex_def FreeVortexParticles_def reset_def
      free_induced_velocity_def induced_velocity_single_def kernel_column_def rsq_def
      vsub_def vadd_def dot_def Let_def power2_eq_square)

lemma one_vortex_circulation: "circulation one_vortex = 3"
  by (simp add: one_vortex_def add_vortex_def FreeVortexParticles_def reset_def
      circulation_def)

lemma plate_system_wake:
  "unsteady_system plate_panels 1 (0, 1) (Some one_vortex) None (1 / 4)
     = Inr ([[- (1 / pi), 1 / pi], [1, 1]], [- (6 / (5 * pi) + 1), - 3], (5 / 4, 0),
            plate_panels\<lparr>bp_influence_matrix := Some [[- (1 / pi)]]\<rparr>)"
proof -
  note c = one_vortex_circulation
  have rhs: "compute_rhs (plate_panels\<lparr>bp_influence_matrix := Some [[- (1 / pi)]]\<rparr>) (0, 1)
               (Some one_vortex) = Inr [- (6 / (5 * pi) + 1)]"
    using one_vortex_velocity
    by (simp add: compute_rhs_def plate_panels_def plate_def vadd_def dot_def Let_def)
  show ?thesis
    using plate_matrix rhs
    by (simp add: unsteady_system_def plate_kernel_shed c Let_def numeral_2_eq_2
        plate_panels_def vadd_def smul_def dot_def)
qed

lemma plate_system_rest:
  "unsteady_system plate_panels 1 (0, 1) None None (1 / 4)
     = Inr ([[- (1 / pi), 1 / pi], [1, 1]], [- 1, 0], (5 / 4, 0),
            plate_panels\<lparr>bp_influence_matrix := Some [[- (1 / pi)]]\<rparr>)"
  using plate_matrix
  by (simp add: unsteady_system_def plate_panels_def plate_kernel_shed compute_rhs_def plate_def
      vadd_def smul_def dot_def Let_def numeral_2_eq_2)

theorem default_total_circulation_witness:
  "(unsteady_system plate_panels 1 (0, 1) None None (1 / 4)
      = Inr ([[- (1 / pi), 1 / pi], [1, 1]], [- 1, 0], (5 / 4, 0),
             plate_panels\<lparr>bp_influence_matrix := Some [[- (1 / pi)]]\<rparr>) \<and>
    last [[- (1 / pi), 1 / pi], [1, 1]] = [1, 1::real] \<and> last [- 1, 0::real] = 0) \<and>
   (unsteady_system plate_panels 1 (0, 1) (Some one_vortex) None (1 / 4)
      = Inr ([[- (1 / pi), 1 / pi], [1, 1]], [- (6 / (5 * pi) + 1), - 3], (5 / 4, 0),
             plate_panels\<lparr>bp_influence_matrix := Some [[- (1 / pi)]]\<rparr>) \<and>
    last [- (6 / (5 * pi) + 1), - 3] = - circulation one_vortex) \<and>
   (unsteady_system plate_panels 1 (0, 1) None (Some 2) (1 / 4)
      = Inr ([[- (1 / pi), 1 / pi], [1, 1]], [- 1, 2], (5 / 4, 0),
             plate_panels\<lparr>bp_influence_matrix := Some [[- (1 / pi)]]\<rparr>) \<and>
    last [- 1, 2::real] = 2)"
proof -
  have n: "replicate (bp_numpanels plate_panels + 1) (1::real) = [1, 1]"
    by (simp add: plate_panels_def)
  have rest: "last [[- (1 / pi), 1 / pi], [1, 1]] = [1, 1::real] \<and> last [- 1, 0::real] = 0"
    using default_total_circulation [OF plate_system_rest] unfolding n by blast
  have wake: "last [- (6 / (5 * pi) + 1), - 3] = - circulation one_vortex"
    using default_total_circulation [OF plate_system_wake] by blast
  have given: "last [- 1, 2::real] = 2"
    using default_total_circulation [OF plate_system] by blast
  show ?thesis
    using rest wake given plate_system_rest plate_system_wake plate_system
    by blast
qed

lemma update_panels_x_shed:
  "update_panels s Uinfty = Inr s' \<Longrightarrow> bp_x_shed s' = bp_x_shed s \<and> bp_body s' = bp_body s"
  by (auto simp: update_panels_def Let_def split: if_splits)

lemma update_strengths_x_shed:
  "update_strengths solve s Uinfty = Inr s' \<Longrightarrow> bp_x_shed s' = bp_x_shed s"
  by (auto simp: update_strengths_def split: sum.splits option.splits
      dest!: influence_matrix_fields)

lemma never_shed_x_shed: "never_shed solve s \<Longrightarrow> bp_x_shed s = None"
proof (induction rule: never_shed.induct)
  case (created b Uinfty s)
  then show ?case
    by (auto simp: BoundVortexPanels_def dest: update_panels_x_shed)
next
  case (positions s)
  then show ?case by (simp add: update_positions_def)
next
  case (radius s r)
  then show ?case by simp
next
  case (matrix s A s')
  then show ?case by (auto dest: influence_matrix_fields)
next
  case (steady s Uinfty s')
  then show ?case by (auto dest: update_strengths_x_shed)
qed

text \<open>
  C8. On an object on which no unsteady solve has completed \<open>get_newly_shed\<close> raises
  \<open>AttributeError\<close>. After \<open>update_strengths_unsteady\<close> it returns the recorded
  position, the trailing edge moved by \<open>wake_fac |Uinfty| dt\<close> along the wake direction,
  mapped by \<open>map_position\<close> when the body has a motion and as it is otherwise, with the
  recorded strength.
\<close>

theorem get_newly_shed_after_unsteady_only:
  "(never_shed solve s \<longrightarrow>
      get_newly_shed s = Inl AttributeError \<and> raises (get_newly_shed s)) \<and>
   (update_strengths_unsteady solve s dt Uinfty wake circ wake_fac = Inr s' \<longrightarrow>
      (\<exists>x_shed gam_shed.
         bp_x_shed s' = Some x_shed \<and> bp_gam_shed s' = Some gam_shed \<and>
         x_shed = vadd (bp_trailing_edge s)
                    (smul (wake_fac * sqrt ((fst Uinfty)\<^sup>2 + (snd Uinfty)\<^sup>2) * dt)
                       (bp_wake_dir s)) \<and>
         get_newly_shed s'
           = Inr (case get_motion (bp_body s) of
                    Some m \<Rightarrow> map_position m x_shed
                  | None \<Rightarrow> x_shed,
                  gam_shed)))"
proof (intro conjI impI)
  assume "never_shed solve s"
  then have "bp_x_shed s = None" by (rule never_shed_x_shed)
  then show "get_newly_shed s = Inl AttributeError" "raises (get_newly_shed s)"
    by (simp_all add: get_newly_shed_def raises_def)
next
  assume "update_strengths_unsteady solve s dt Uinfty wake circ wake_fac = Inr s'"
  from update_strengths_unsteady_parts [OF this]
  obtain A rhs x_shed s1 gam where
    sys: "unsteady_system s dt Uinfty wake circ wake_fac = Inr (A, rhs, x_shed, s1)"
    and s': "s' = s1\<lparr>bp_gam := butlast gam, bp_x_shed := Some x_shed,
                      bp_gam_shed := Some (last gam)\<rparr>"
    by blast
  from unsteady_system_parts [OF sys]
  obtain M where im: "influence_matrix s = Inr (M, s1)"
    and x: "x_shed = vadd (bp_trailing_edge s)
                      (smul (wake_fac * sqrt ((fst Uinfty)\<^sup>2 + (snd Uinfty)\<^sup>2) * dt)
                         (bp_wake_dir s))"
    by blast
  have body: "bp_body s1 = bp_body s"
    using influence_matrix_fields [OF im] by simp
  have "get_newly_shed s'
          = Inr (case get_motion (bp_body s) of
                   Some m \<Rightarrow> map_position m x_shed | None \<Rightarrow> x_shed, last gam)"
    by (simp add: get_newly_shed_def s' body)
  then show "\<exists>x_shed gam_shed.
         bp_x_shed s' = Some x_shed \<and> bp_gam_shed s' = Some gam_shed \<and>
         x_shed = vadd (bp_trailing_edge s)
                    (smul (wake_fac * sqrt ((fst Uinfty)\<^sup>2 + (snd Uinfty)\<^sup>2) * dt)
                       (bp_wake_dir s)) \<and>
         get_newly_shed s'
           = Inr (case get_motion (bp_body s) of
                    Some m \<Rightarrow> map_position m x_shed
                  | None \<Rightarrow> x_shed,
                  gam_shed)"
    using x by (intro exI [of _ x_shed] exI [of _ "last gam"]) (simp add: s')
qed


theorem get_newly_shed_after_unsteady_only_witness:
  "never_shed solve2 plate_panels \<and> get_newly_shed plate_panels = Inl AttributeError \<and>
   update_strengths_unsteady solve2 plate_panels 1 (0, 1) None (Some 2) (1 / 4)
     = Inr (plate_panels\<lparr>bp_influence_matrix := Some [[- (1 / pi)]],
              bp_gam := [pi / 2 + 1], bp_x_shed := Some (5 / 4, 0),
              bp_gam_shed := Some (1 - pi / 2)\<rparr>) \<and>
   get_newly_shed (plate_panels\<lparr>bp_influence_matrix := Some [[- (1 / pi)]],
              bp_gam := [pi / 2 + 1], bp_x_shed := Some (5 / 4, 0),
              bp_gam_shed := Some (1 - pi / 2)\<rparr>) = Inr ((5 / 4, 0), 1 - pi / 2)"
proof -
  let ?s' = "plate_panels\<lparr>bp_influence_matrix := Some [[- (1 / pi)]],
              bp_gam := [pi / 2 + 1], bp_x_shed := Some (5 / 4, 0),
              bp_gam_shed := Some (1 - pi / 2)\<rparr>"
  note both = get_newly_shed_after_unsteady_only
    [of solve2 plate_panels 1 "(0, 1)" None "Some 2" "1 / 4" ?s']
  have ns: "never_shed solve2 plate_panels"
    using plate_created by (rule never_shed.created)
  have motion: "get_motion (bp_body plate_panels) = None"
    by (simp add: plate_panels_def plate_def)
  from both ns have before: "get_newly_shed plate_panels = Inl AttributeError"
    by blast
  from both plate_solve obtain x_shed gam_shed where
    "bp_x_shed ?s' = Some x_shed" "bp_gam_shed ?s' = Some gam_shed"
    "get_newly_shed ?s'
       = Inr (case get_motion (bp_body plate_panels) of
                Some m \<Rightarrow> map_position m x_shed | None \<Rightarrow> x_shed, gam_shed)"
    by blast
  then have after: "get_newly_shed ?s' = Inr ((5 / 4, 0), 1 - pi / 2)"
    by (simp add: motion)
  show ?thesis
    using ns before plate_solve after by blast
qed

section \<open>Advection\<close>

lemma accumulate_velocity_total:
  assumes "0 < r0" "length vel = length x"
  shows "\<exists>v. accumulate_velocity r0 x zs vel = Inr v \<and> length v = length x"
  using assms(2)
proof (induction zs arbitrary: vel)
  case Nil
  then show ?case by simp
next
  case (Cons z zs)
  obtain xv gam where z: "z = (xv, gam)" by (cases z)
  let ?u = "map (\<lambda>p. kernel_column r0 p xv gam) x"
  have u: "induced_velocity_single r0 x xv gam = Inr ?u"
    using assms(1) by (rule single_Inr)
  have "length (map2 vadd vel ?u) = length x"
    using Cons.prems by simp
  from Cons.IH [OF this] show ?case
    by (simp add: z u)
qed

lemma free_induced_velocity_total:
  assumes "fv_x_vortices w = Some xvs" "0 < fv_core_radius w"
  shows "\<exists>v. free_induced_velocity w x = Inr v \<and> length v = length x"
  using accumulate_velocity_total [OF assms(2), of "map (\<lambda>_. (0, 0)) x" x "zip xvs (fv_gamma w)"]
  by (simp add: free_induced_velocity_def assms(1))

lemma bound_induced_velocity_total:
  assumes "0 < bp_core_radius b"
  shows "\<exists>v. bound_induced_velocity b x = Inr v \<and> length v = length x"
  using accumulate_velocity_total [OF assms, of "map (\<lambda>_. (0, 0)) x" x]
  by (simp add: bound_induced_velocity_def Let_def)

lemma vadd_zero: "vadd v (0, 0) = v"
  by (simp add: vadd_def)

lemma euler_step_nth:
  assumes "length v = length xs"
  shows "map2 (\<lambda>p v. vadd p (smul dt v)) xs v
           = map (\<lambda>i. vadd (xs ! i) (smul dt (v ! i))) [0..<length xs]"
  using assms by (intro nth_equalityI) simp_all

text \<open>
  C10. On a wake with particles, with positive core radii, \<open>advect\<close> returns and changes
  the positions only: each position moves by \<open>dt\<close> times its velocity, the sum of the
  velocity the wake induces, the velocity the body induces and the free stream, all
  computed at the positions before the step; the strengths, the particle count, the
  circulation and the core radius are as before.
\<close>

theorem advect_moves_positions_only:
  assumes "fv_x_vortices w = Some xs" and "0 < fv_core_radius w"
    and "case body of None \<Rightarrow> True | Some b \<Rightarrow> 0 < bp_core_radius b"
  shows "\<exists>v_self v_body w'.
           free_induced_velocity w xs = Inr v_self \<and>
           (case body of None \<Rightarrow> v_body = map (\<lambda>_. (0, 0)) xs
            | Some b \<Rightarrow> bound_induced_velocity b xs = Inr v_body) \<and>
           advect w dt Uinfty body = Inr w' \<and>
           fv_x_vortices w'
             = Some (map (\<lambda>i. vadd (xs ! i)
                                (smul dt (vadd (vadd (v_self ! i) (v_body ! i))
                                            (case Uinfty of None \<Rightarrow> (0, 0) | Some u \<Rightarrow> u))))
                       [0..<length xs]) \<and>
           fv_gamma w' = fv_gamma w \<and> fv_num_vortices w' = fv_num_vortices w \<and>
           circulation w' = circulation w \<and> fv_core_radius w' = fv_core_radius w"
proof -
  from free_induced_velocity_total [OF assms(1,2), of xs]
  obtain v_self where self: "free_induced_velocity w xs = Inr v_self"
    and lself: "length v_self = length xs"
    by blast
  obtain v_body where body: "case body of None \<Rightarrow> v_body = map (\<lambda>_. (0, 0)) xs
            | Some b \<Rightarrow> bound_induced_velocity b xs = Inr v_body"
    and lbody: "length v_body = length xs"
  proof (cases body)
    case None
    then show ?thesis using that [of "map (\<lambda>_. (0, 0)) xs"] by simp
  next
    case (Some b)
    with assms(3) have "0 < bp_core_radius b" by simp
    from bound_induced_velocity_total [OF this, of xs] Some that show ?thesis by auto
  qed
  define vel1 where "vel1 = map2 vadd v_self v_body"
  define u0 where "u0 = (case Uinfty of None \<Rightarrow> (0, 0) | Some u \<Rightarrow> u)"
  define vel2 where "vel2 = map (\<lambda>v. vadd v u0) vel1"
  have l2: "length vel2 = length xs"
    by (simp add: vel2_def vel1_def lself lbody)
  have with_body: "(case body of None \<Rightarrow> Inr v_self
          | Some b \<Rightarrow> (case bound_induced_velocity b xs of
                         Inl e \<Rightarrow> Inl e | Inr bvel \<Rightarrow> Inr (map2 vadd v_self bvel)))
        = Inr vel1"
  proof (cases body)
    case None
    with body have "v_body = map (\<lambda>_. (0, 0)) xs" by simp
    then have "vel1 = v_self"
      using lself by (intro nth_equalityI) (simp_all add: vel1_def vadd_zero)
    with None show ?thesis by simp
  next
    case (Some b)
    with body show ?thesis by (simp add: vel1_def)
  qed
  have with_U: "(case Uinfty of None \<Rightarrow> vel1
          | Some u \<Rightarrow> if fst u \<noteq> 0 \<or> snd u \<noteq> 0 then map (\<lambda>v. vadd v u) vel1 else vel1)
        = vel2"
  proof (cases Uinfty)
    case None
    then show ?thesis by (simp add: vel2_def u0_def vadd_zero)
  next
    case (Some u)
    show ?thesis
    proof (cases "fst u \<noteq> 0 \<or> snd u \<noteq> 0")
      case True
      with Some show ?thesis by (simp add: vel2_def u0_def)
    next
      case False
      then have "u = (0, 0)" by (simp add: prod_eq_iff)
      with Some show ?thesis by (simp add: vel2_def u0_def vadd_zero)
    qed
  qed
  let ?w' = "w\<lparr>fv_x_vortices := Some (map2 (\<lambda>p v. vadd p (smul dt v)) xs vel2)\<rparr>"
  have run: "advect w dt Uinfty body = Inr ?w'"
    unfolding advect_def by (simp only: assms(1) self with_body with_U option.case sum.case Let_def)
  have nth2: "vel2 ! i = vadd (vadd (v_self ! i) (v_body ! i)) u0" if "i < length xs" for i
    using that by (simp add: vel2_def vel1_def lself lbody)
  have pos: "map2 (\<lambda>p v. vadd p (smul dt v)) xs vel2
               = map (\<lambda>i. vadd (xs ! i) (smul dt (vadd (vadd (v_self ! i) (v_body ! i)) u0)))
                   [0..<length xs]"
    unfolding euler_step_nth [OF l2] using nth2 by simp
  show ?thesis
    using self body run pos
    by (intro exI [of _ v_self] exI [of _ v_body] exI [of _ ?w'])
       (simp add: u0_def circulation_def)
qed


lemma vortex_pair_fields:
  "fv_x_vortices vortex_pair = Some [(0, 0), (1, 0)]" "fv_gamma vortex_pair = [1, 1]"
  "fv_num_vortices vortex_pair = 2" "circulation vortex_pair = 2"
  "fv_core_radius vortex_pair = 1 / 1000"
  by (simp_all add: vortex_pair_def add_vortex_def FreeVortexParticles_def reset_def
      circulation_def)

lemma vortex_pair_self:
  "free_induced_velocity vortex_pair [(0, 0), (1, 0)]
     = Inr [(0, 1 / (2 * pi)), (0, - (1 / (2 * pi)))]"
  by (simp add: free_induced_velocity_def vortex_pair_fields induced_velocity_single_def
      kernel_column_def rsq_def vsub_def vadd_def dot_def Let_def power2_eq_square)

lemma vortex_pair_body:
  "bound_induced_velocity (plate_panels\<lparr>bp_gam := [1]\<rparr>) [(0, 0), (1, 0)]
     = Inr [(0, 2 / pi), (0, - (2 / (3 * pi)))]"
  by (simp add: bound_induced_velocity_def plate_panels_def plate_def
      induced_velocity_single_def kernel_column_def rsq_def vsub_def vadd_def dot_def Let_def
      power2_eq_square)

theorem advect_moves_positions_only_witness:
  "fv_x_vortices vortex_pair = Some [(0, 0), (1, 0)] \<and> 0 < fv_core_radius vortex_pair \<and>
   0 < bp_core_radius (plate_panels\<lparr>bp_gam := [1]\<rparr>) \<and>
   (\<exists>w'. advect vortex_pair 1 (Some (1, 0)) (Some (plate_panels\<lparr>bp_gam := [1]\<rparr>)) = Inr w' \<and>
      fv_x_vortices w' = Some [(1, 5 / (2 * pi)), (2, - (7 / (6 * pi)))] \<and>
      fv_gamma w' = [1, 1] \<and> fv_num_vortices w' = 2 \<and> circulation w' = 2)"
proof -
  have r: "0 < fv_core_radius vortex_pair"
    by (simp add: vortex_pair_fields)
  have b: "0 < bp_core_radius (plate_panels\<lparr>bp_gam := [1]\<rparr>)"
    by (simp add: plate_panels_def)
  have b': "case Some (plate_panels\<lparr>bp_gam := [1]\<rparr>) of None \<Rightarrow> True
            | Some b \<Rightarrow> 0 < bp_core_radius b"
    using b by simp
  from advect_moves_positions_only [OF vortex_pair_fields(1) r b', of 1 "Some (1, 0)"]
  obtain v_self v_body w' where
    "free_induced_velocity vortex_pair [(0, 0), (1, 0)] = Inr v_self"
    "bound_induced_velocity (plate_panels\<lparr>bp_gam := [1]\<rparr>) [(0, 0), (1, 0)] = Inr v_body"
    and run: "advect vortex_pair 1 (Some (1, 0)) (Some (plate_panels\<lparr>bp_gam := [1]\<rparr>)) = Inr w'"
    and pos: "fv_x_vortices w'
             = Some (map (\<lambda>i. vadd ([(0, 0), (1, 0)] ! i)
                                (smul 1 (vadd (vadd (v_self ! i) (v_body ! i)) (1, 0))))
                       [0..<length [(0 :: real, 0 :: real), (1, 0)]])"
    and same: "fv_gamma w' = fv_gamma vortex_pair" "fv_num_vortices w' = fv_num_vortices vortex_pair"
      "circulation w' = circulation vortex_pair"
    by auto
  then have v: "v_self = [(0, 1 / (2 * pi)), (0, - (1 / (2 * pi)))]"
      "v_body = [(0, 2 / pi), (0, - (2 / (3 * pi)))]"
    by (simp_all add: vortex_pair_self vortex_pair_body)
  have "fv_x_vortices w' = Some [(1, 5 / (2 * pi)), (2, - (7 / (6 * pi)))]"
    unfolding pos v by (simp add: vadd_def smul_def upt_rec field_simps)
  with run same show ?thesis
    using vortex_pair_fields r b by simp
qed

end
